theory Spec2Isabelle
  imports Main
begin

section \<open>Settings, requests and responses\<close>

text \<open>
  The plugin class \<open>ObsidianDrivePlugin\<close> keeps its configuration in
  \<open>this.settings\<close> and three transient fields (\<open>accessToken\<close>, \<open>syncInterval\<close>,
  \<open>visibleFolderId\<close>). It talks to three hosts through \<open>fetch\<close> and to the
  vault of the host application. Both are outside the plugin: they are
  parameters of the model (\<open>env\<close>), and everything the plugin does to them is
  recorded in a trace.
\<close>

datatype storage_location = AppDataFolder | Visible

record drive_settings =
  googleDriveClientId :: string
  googleDriveClientSecret :: string
  refreshToken :: string
  syncInterval :: nat
  autoSync :: bool
  syncOnSave :: bool
  manualSync :: bool
  storageLocation :: storage_location
  visibleFolderName :: string

definition DEFAULT_SETTINGS :: drive_settings where
  "DEFAULT_SETTINGS =
     \<lparr>googleDriveClientId = [], googleDriveClientSecret = [], refreshToken = [],
      syncInterval = 300000, autoSync = False, syncOnSave = False, manualSync = True,
      storageLocation = AppDataFolder, visibleFolderName = ''Obsidian Vault''\<rparr>"

datatype http_method = GET | POST | PATCH | DELETE

text \<open>
  The three URL prefixes of the source:
  \<open>https://www.googleapis.com/drive/v3/\<close>,
  \<open>https://www.googleapis.com/upload/drive/v3/\<close> and
  \<open>https://oauth2.googleapis.com/token\<close>.
\<close>

datatype url_base = DriveApi | DriveUpload | OAuthToken

datatype jval = JStr string | JArr "jval list" | JObj "(string \<times> jval) list"

text \<open>\<open>Json v\<close> is the text \<open>JSON.stringify(v)\<close>; \<open>Text s\<close> is the string itself.\<close>

datatype payload = Text string | Json jval

datatype body =
    NoBody
  | Payload payload
  | UrlForm "(string \<times> string) list"
  | FormData "(string \<times> payload \<times> string) list"

text \<open>
  An endpoint such as \<open>files/ID?uploadType=media\<close> or \<open>files?q=...&spaces=...\<close>
  is kept as its path and its list of query parameters (the percent-encoding
  of \<open>URLSearchParams\<close> is not modelled).
\<close>

type_synonym endpoint = "string \<times> (string \<times> string) list"

record request =
  req_base :: url_base
  req_endpoint :: endpoint
  req_method :: http_method
  req_headers :: "(string \<times> string) list"
  req_body :: body

text \<open>The \<open>RequestInit\<close> bag passed by the callers: method, headers, body.\<close>

record options =
  opt_method :: "http_method option"
  opt_headers :: "(string \<times> string) list"
  opt_body :: body

definition no_options :: options where
  "no_options = \<lparr>opt_method = None, opt_headers = [], opt_body = NoBody\<rparr>"

record drive_file =
  file_id :: string
  file_name :: string

text \<open>
  The fields the plugin reads from a JSON answer: \<open>files\<close>, \<open>id\<close>,
  \<open>access_token\<close>, \<open>refresh_token\<close>; each may be missing (\<open>undefined\<close>).
\<close>

record json =
  j_files :: "drive_file list option"
  j_id :: "string option"
  j_access_token :: "string option"
  j_refresh_token :: "string option"

text \<open>
  A response: its status, the result of \<open>response.json()\<close> (\<open>None\<close> when the
  body is not JSON and the call rejects) and the result of \<open>response.text()\<close>.
\<close>

record response =
  resp_status :: nat
  resp_json :: "json option"
  resp_text :: string

definition response_ok :: "response \<Rightarrow> bool" where
  "response_ok r \<longleftrightarrow> 200 \<le> resp_status r \<and> resp_status r \<le> 299"

datatype error =
    NoRefreshToken
  | RefreshFailed nat
  | DriveApiError nat
  | DriveUploadError nat
  | DownloadFailed nat
  | FetchRejected
  | JsonRejected
  | VaultRejected

datatype event =
    Fetch request
  | VaultRead string
  | VaultCreate string string
  | ConsoleError string error
  | ConsoleLog string
  | Notice string

text \<open>
  The world outside the plugin. \<open>fetch\<close> answers a request (\<open>None\<close>: the
  promise rejects); \<open>vault_read\<close> is \<open>app.vault.read\<close> (\<open>None\<close>: rejects),
  \<open>vault_getAbstractFileByPath\<close> tells whether the lookup is non-null,
  \<open>vault_create\<close> is \<open>app.vault.create\<close> (\<open>False\<close>: rejects) and
  \<open>vault_getFiles\<close> lists the paths of the files of the vault.
\<close>

record 'w env =
  fetch :: "request \<Rightarrow> 'w \<Rightarrow> response option \<times> 'w"
  vault_read :: "string \<Rightarrow> 'w \<Rightarrow> string option"
  vault_getAbstractFileByPath :: "string \<Rightarrow> 'w \<Rightarrow> bool"
  vault_create :: "string \<Rightarrow> string \<Rightarrow> 'w \<Rightarrow> bool \<times> 'w"
  vault_getFiles :: "'w \<Rightarrow> string list"

text \<open>
  The plugin object, together with what it has persisted with \<open>saveData\<close>
  (\<open>saved\<close>), the interval timers it has running in \<open>window\<close> (\<open>timers\<close>), the
  world and the trace of its effects. The field \<open>syncInterval\<close> of the class
  is \<open>syncIntervalId\<close> here (the settings have a field of the same name).
\<close>

record 'w plugin =
  settings :: drive_settings
  accessToken :: "string option"
  syncIntervalId :: "nat option"
  visibleFolderId :: "string option"
  saved :: "drive_settings option"
  timers :: "nat list"
  world :: 'w
  trace :: "event list"

text \<open>JavaScript truthiness of a nullable string and of a nullable number.\<close>

definition truthy :: "string option \<Rightarrow> bool" where
  "truthy s = (case s of None \<Rightarrow> False | Some v \<Rightarrow> v \<noteq> [])"

definition truthy_num :: "nat option \<Rightarrow> bool" where
  "truthy_num h = (case h of None \<Rightarrow> False | Some n \<Rightarrow> n \<noteq> 0)"

text \<open>Object spread and property assignment on a header object.\<close>

fun put :: "string \<Rightarrow> string \<Rightarrow> (string \<times> string) list \<Rightarrow> (string \<times> string) list" where
  "put k v [] = [(k, v)]"
| "put k v (p # ps) = (if fst p = k then (k, v) # ps else p # put k v ps)"

definition spread :: "(string \<times> string) list \<Rightarrow> (string \<times> string) list \<Rightarrow> (string \<times> string) list" where
  "spread base extra = foldl (\<lambda>h kv. put (fst kv) (snd kv) h) base extra"

text \<open>
  The header value \<open>`Bearer ${this.accessToken}`\<close>. A missing token is \<open>None\<close>
  whether the field is \<open>null\<close> or \<open>undefined\<close>; the text it is printed as is
  taken to be \<open>null\<close>.
\<close>

definition bearer :: "string option \<Rightarrow> string" where
  "bearer tok = ''Bearer '' @ (case tok of None \<Rightarrow> ''null'' | Some t \<Rightarrow> t)"

definition method_of :: "options \<Rightarrow> http_method" where
  "method_of opts = (case opt_method opts of None \<Rightarrow> GET | Some m \<Rightarrow> m)"

definition do_fetch :: "'w env \<Rightarrow> request \<Rightarrow> 'w plugin \<Rightarrow> response option \<times> 'w plugin" where
  "do_fetch env rq st =
     (case fetch env rq (world st) of
        (r, w) \<Rightarrow> (r, st\<lparr>world := w, trace := trace st @ [Fetch rq]\<rparr>))"

definition console_error :: "string \<Rightarrow> error \<Rightarrow> 'w plugin \<Rightarrow> 'w plugin" where
  "console_error msg e st = st\<lparr>trace := trace st @ [ConsoleError msg e]\<rparr>"

definition console_log :: "string \<Rightarrow> 'w plugin \<Rightarrow> 'w plugin" where
  "console_log msg st = st\<lparr>trace := trace st @ [ConsoleLog msg]\<rparr>"

definition notice :: "string \<Rightarrow> 'w plugin \<Rightarrow> 'w plugin" where
  "notice msg st = st\<lparr>trace := trace st @ [Notice msg]\<rparr>"

section \<open>Token refresh\<close>

text \<open>\<open>saveSettings\<close> (lines 110-112) and \<open>refreshAccessToken\<close> (lines 176-200).\<close>

definition saveSettings :: "'w plugin \<Rightarrow> 'w plugin" where
  "saveSettings st = st\<lparr>saved := Some (settings st)\<rparr>"

definition refresh_request :: "drive_settings \<Rightarrow> request" where
  "refresh_request s =
     \<lparr>req_base = OAuthToken, req_endpoint = ([], []), req_method = POST,
      req_headers = [(''Content-Type'', ''application/x-www-form-urlencoded'')],
      req_body = UrlForm
        [(''client_id'', googleDriveClientId s),
         (''client_secret'', googleDriveClientSecret s),
         (''refresh_token'', refreshToken s),
         (''grant_type'', ''refresh_token'')]\<rparr>"

definition refreshAccessToken :: "'w env \<Rightarrow> 'w plugin \<Rightarrow> (error + unit) \<times> 'w plugin" where
  "refreshAccessToken env st =
     (if refreshToken (settings st) = [] then (Inl NoRefreshToken, st)
      else
        (case do_fetch env (refresh_request (settings st)) st of
           (None, st1) \<Rightarrow> (Inl FetchRejected, st1)
         | (Some r, st1) \<Rightarrow>
             if \<not> response_ok r then (Inl (RefreshFailed (resp_status r)), st1)
             else
               (case resp_json r of
                  None \<Rightarrow> (Inl JsonRejected, st1)
                | Some tokens \<Rightarrow> (Inr (), st1\<lparr>accessToken := j_access_token tokens\<rparr>))))"

section \<open>Addressing helpers\<close>

text \<open>\<open>sq s\<close> is \<open>s\<close> between two apostrophes, as the template strings write it.\<close>

definition sq :: "string \<Rightarrow> string" where
  "sq s = CHR 0x27 # s @ [CHR 0x27]"

text \<open>\<open>getParentId\<close>, \<open>getSearchQuery\<close>, \<open>getSearchSpace\<close> (lines 562-581).\<close>

definition getParentId :: "'w plugin \<Rightarrow> string list" where
  "getParentId st =
     (if storageLocation (settings st) = Visible \<and> truthy (visibleFolderId st)
      then [the (visibleFolderId st)]
      else [''appDataFolder''])"

definition getSearchQuery :: "'w plugin \<Rightarrow> string \<Rightarrow> string" where
  "getSearchQuery st fileName =
     (if storageLocation (settings st) = Visible \<and> truthy (visibleFolderId st)
      then ''name='' @ sq fileName @ '' and parents in '' @ sq (the (visibleFolderId st))
      else ''name='' @ sq fileName @ '' and parents in '' @ sq ''appDataFolder'')"

definition getSearchSpace :: "'w plugin \<Rightarrow> string option" where
  "getSearchSpace st =
     (if storageLocation (settings st) = Visible then None else Some ''appDataFolder'')"

section \<open>The auto-sync timer\<close>

text \<open>
  \<open>window.setInterval\<close> installs a timer and returns its handle, a number the
  host chooses (\<open>h\<close> below); \<open>window.clearInterval\<close> removes the timer with
  that handle.
\<close>

text \<open>\<open>startAutoSync\<close> and \<open>stopAutoSync\<close> are lines 514-529.\<close>

definition clearInterval :: "nat \<Rightarrow> 'w plugin \<Rightarrow> 'w plugin" where
  "clearInterval h st = st\<lparr>timers := removeAll h (timers st)\<rparr>"

definition setInterval :: "nat \<Rightarrow> 'w plugin \<Rightarrow> 'w plugin" where
  "setInterval h st = st\<lparr>timers := timers st @ [h]\<rparr>"

definition startAutoSync :: "nat \<Rightarrow> 'w plugin \<Rightarrow> 'w plugin" where
  "startAutoSync h st =
     (let st1 = (if truthy_num (syncIntervalId st)
                 then clearInterval (the (syncIntervalId st)) st else st)
      in (setInterval h st1)\<lparr>syncIntervalId := Some h\<rparr>)"

definition stopAutoSync :: "'w plugin \<Rightarrow> 'w plugin" where
  "stopAutoSync st =
     (if truthy_num (syncIntervalId st)
      then (clearInterval (the (syncIntervalId st)) st)\<lparr>syncIntervalId := None\<rparr>
      else st)"

section \<open>The remote client\<close>

text \<open>
  \<open>driveApiRequest\<close> and \<open>driveUploadRequest\<close> call themselves after a 401
  answer and a successful refresh, with no bound of their own. The model
  takes the number of attempts it may make (\<open>n\<close>); \<open>None\<close> means that this
  number was not enough, so the call has not returned yet.
\<close>

text \<open>
  \<open>driveApiRequest\<close> is lines 229-260, \<open>driveUploadRequest\<close> lines 262-288 and
  \<open>getDriveFile\<close> lines 202-227. \<open>ensure_token\<close> is their common first
  statement, \<open>if (!this.accessToken) await this.refreshAccessToken()\<close>, and
  \<open>api_request\<close>, \<open>upload_request\<close>, \<open>get_request\<close> are the calls of \<open>fetch\<close>
  they make with the token at hand.
\<close>

definition ensure_token :: "'w env \<Rightarrow> 'w plugin \<Rightarrow> (error + unit) \<times> 'w plugin" where
  "ensure_token env st =
     (if \<not> truthy (accessToken st) then refreshAccessToken env st else (Inr (), st))"

definition api_request :: "endpoint \<Rightarrow> options \<Rightarrow> string option \<Rightarrow> request" where
  "api_request ep opts tok =
     (let headers = spread [(''Authorization'', bearer tok)] (opt_headers opts);
          headers' = (case map_of headers ''Content-Type'' of
                        None \<Rightarrow> put ''Content-Type'' ''application/json'' headers
                      | Some v \<Rightarrow> if v = [] then put ''Content-Type'' ''application/json'' headers
                                  else headers)
      in \<lparr>req_base = DriveApi, req_endpoint = ep, req_method = method_of opts,
          req_headers = headers', req_body = opt_body opts\<rparr>)"

definition upload_request :: "endpoint \<Rightarrow> options \<Rightarrow> string option \<Rightarrow> request" where
  "upload_request ep opts tok =
     \<lparr>req_base = DriveUpload, req_endpoint = ep, req_method = method_of opts,
      req_headers = spread [(''Authorization'', bearer tok)] (opt_headers opts),
      req_body = opt_body opts\<rparr>"

definition get_request :: "endpoint \<Rightarrow> options \<Rightarrow> string option \<Rightarrow> request" where
  "get_request ep opts tok =
     \<lparr>req_base = DriveApi, req_endpoint = ep, req_method = method_of opts,
      req_headers = spread [(''Authorization'', bearer tok),
                            (''Content-Type'', ''application/json'')] (opt_headers opts),
      req_body = opt_body opts\<rparr>"

fun driveApiRequest ::
  "'w env \<Rightarrow> nat \<Rightarrow> endpoint \<Rightarrow> options \<Rightarrow> 'w plugin \<Rightarrow> ((error + json) \<times> 'w plugin) option" where
  "driveApiRequest env 0 ep opts st = None"
| "driveApiRequest env (Suc n) ep opts st =
     (case ensure_token env st of
        (Inl e, st1) \<Rightarrow> Some (Inl e, st1)
      | (Inr _, st1) \<Rightarrow>
          (case do_fetch env (api_request ep opts (accessToken st1)) st1 of
             (None, st2) \<Rightarrow> Some (Inl FetchRejected, st2)
           | (Some r, st2) \<Rightarrow>
               if resp_status r = 401 then
                 (case refreshAccessToken env st2 of
                    (Inl e, st3) \<Rightarrow> Some (Inl e, st3)
                  | (Inr _, st3) \<Rightarrow> driveApiRequest env n ep opts st3)
               else if \<not> response_ok r then Some (Inl (DriveApiError (resp_status r)), st2)
               else
                 (case resp_json r of
                    None \<Rightarrow> Some (Inl JsonRejected, st2)
                  | Some j \<Rightarrow> Some (Inr j, st2))))"

fun driveUploadRequest ::
  "'w env \<Rightarrow> nat \<Rightarrow> endpoint \<Rightarrow> options \<Rightarrow> 'w plugin \<Rightarrow> ((error + json) \<times> 'w plugin) option" where
  "driveUploadRequest env 0 ep opts st = None"
| "driveUploadRequest env (Suc n) ep opts st =
     (case ensure_token env st of
        (Inl e, st1) \<Rightarrow> Some (Inl e, st1)
      | (Inr _, st1) \<Rightarrow>
          (case do_fetch env (upload_request ep opts (accessToken st1)) st1 of
             (None, st2) \<Rightarrow> Some (Inl FetchRejected, st2)
           | (Some r, st2) \<Rightarrow>
               if resp_status r = 401 then
                 (case refreshAccessToken env st2 of
                    (Inl e, st3) \<Rightarrow> Some (Inl e, st3)
                  | (Inr _, st3) \<Rightarrow> driveUploadRequest env n ep opts st3)
               else if \<not> response_ok r then Some (Inl (DriveUploadError (resp_status r)), st2)
               else
                 (case resp_json r of
                    None \<Rightarrow> Some (Inl JsonRejected, st2)
                  | Some j \<Rightarrow> Some (Inr j, st2))))"

text \<open>
  \<open>getDriveFile\<close> makes one attempt of its own; after a 401 answer and a
  refresh it hands the request over to \<open>driveApiRequest\<close>.
\<close>

definition getDriveFile ::
  "'w env \<Rightarrow> nat \<Rightarrow> endpoint \<Rightarrow> options \<Rightarrow> 'w plugin \<Rightarrow> ((error + json) \<times> 'w plugin) option" where
  "getDriveFile env n fileId opts st =
     (case ensure_token env st of
        (Inl e, st1) \<Rightarrow> Some (Inl e, st1)
      | (Inr _, st1) \<Rightarrow>
          (case do_fetch env (get_request fileId opts (accessToken st1)) st1 of
             (None, st2) \<Rightarrow> Some (Inl FetchRejected, st2)
           | (Some r, st2) \<Rightarrow>
               if resp_status r = 401 then
                 (case refreshAccessToken env st2 of
                    (Inl e, st3) \<Rightarrow> Some (Inl e, st3)
                  | (Inr _, st3) \<Rightarrow> driveApiRequest env n fileId opts st3)
               else if \<not> response_ok r then Some (Inl (DriveApiError (resp_status r)), st2)
               else
                 (case resp_json r of
                    None \<Rightarrow> Some (Inl JsonRejected, st2)
                  | Some j \<Rightarrow> Some (Inr j, st2))))"

section \<open>Sequencing\<close>

text \<open>
  An asynchronous operation returns, from a state, an error or a value
  together with the new state, or has not returned. \<open>await m f\<close> continues
  with \<open>f\<close> after \<open>m\<close> has returned a value, and stops where \<open>m\<close> has thrown.
\<close>

definition await ::
  "(('e + 'a) \<times> 's) option \<Rightarrow> ('a \<Rightarrow> 's \<Rightarrow> (('e + 'b) \<times> 's) option) \<Rightarrow> (('e + 'b) \<times> 's) option" where
  "await m f =
     (case m of
        None \<Rightarrow> None
      | Some (Inl e, s) \<Rightarrow> Some (Inl e, s)
      | Some (Inr a, s) \<Rightarrow> f a s)"

definition read_file :: "'w env \<Rightarrow> string \<Rightarrow> 'w plugin \<Rightarrow> ((error + string) \<times> 'w plugin) option" where
  "read_file env file st =
     (case vault_read env file (world st) of
        None \<Rightarrow> Some (Inl VaultRejected, st\<lparr>trace := trace st @ [VaultRead file]\<rparr>)
      | Some content \<Rightarrow> Some (Inr content, st\<lparr>trace := trace st @ [VaultRead file]\<rparr>))"

text \<open>\<open>response.files && response.files.length > 0\<close>, and then \<open>response.files[0]\<close>.\<close>

definition first_file :: "json \<Rightarrow> drive_file option" where
  "first_file response =
     (case j_files response of
        None \<Rightarrow> None
      | Some fs \<Rightarrow> (case fs of [] \<Rightarrow> None | f # _ \<Rightarrow> Some f))"

section \<open>Resolving the visible folder\<close>

text \<open>\<open>ensureVisibleFolderExists\<close> (lines 531-560).\<close>

definition folder_mime :: string where
  "folder_mime = ''application/vnd.google-apps.folder''"

definition folder_query :: "string \<Rightarrow> string" where
  "folder_query name =
     ''name='' @ sq name @ '' and mimeType='' @ sq folder_mime @ '' and trashed=false''"

definition folder_list_endpoint :: "string \<Rightarrow> endpoint" where
  "folder_list_endpoint name = (''files'', [(''q'', folder_query name)])"

definition create_folder_options :: "string \<Rightarrow> options" where
  "create_folder_options name =
     \<lparr>opt_method = Some POST, opt_headers = [],
      opt_body = Payload (Json (JObj [(''name'', JStr name), (''mimeType'', JStr folder_mime)]))\<rparr>"

definition ensureVisibleFolderExists ::
  "'w env \<Rightarrow> nat \<Rightarrow> 'w plugin \<Rightarrow> ((error + unit) \<times> 'w plugin) option" where
  "ensureVisibleFolderExists env n st =
     (if truthy (visibleFolderId st) then Some (Inr (), st)
      else
        (case
           await (getDriveFile env n (folder_list_endpoint (visibleFolderName (settings st)))
                    no_options st)
             (\<lambda>response st1.
                case first_file response of
                  Some f \<Rightarrow> Some (Inr (), st1\<lparr>visibleFolderId := Some (file_id f)\<rparr>)
                | None \<Rightarrow>
                    await (driveApiRequest env n (''files'', [])
                             (create_folder_options (visibleFolderName (settings st1))) st1)
                      (\<lambda>folderResponse st2.
                         Some (Inr (), st2\<lparr>visibleFolderId := j_id folderResponse\<rparr>)))
         of
           None \<Rightarrow> None
         | Some (Inl e, st') \<Rightarrow>
             Some (Inl e, console_error ''Error ensuring visible folder exists:'' e st')
         | Some (Inr u, st') \<Rightarrow> Some (Inr u, st')))"

text \<open>
  The guard every operation starts with:
  \<open>if (this.settings.storageLocation === 'visible') await this.ensureVisibleFolderExists()\<close>.
\<close>

definition ensure_namespace ::
  "'w env \<Rightarrow> nat \<Rightarrow> 'w plugin \<Rightarrow> ((error + unit) \<times> 'w plugin) option" where
  "ensure_namespace env n st =
     (if storageLocation (settings st) = Visible then ensureVisibleFolderExists env n st
      else Some (Inr (), st))"

text \<open>The two handlers of the settings tab that reset the folder id.\<close>

definition onChange_storageLocation :: "storage_location \<Rightarrow> 'w plugin \<Rightarrow> 'w plugin" where
  "onChange_storageLocation v st =
     (saveSettings (st\<lparr>settings := (settings st)\<lparr>storageLocation := v\<rparr>\<rparr>))
       \<lparr>visibleFolderId := None\<rparr>"

definition onChange_visibleFolderName :: "string \<Rightarrow> 'w plugin \<Rightarrow> 'w plugin" where
  "onChange_visibleFolderName v st =
     (saveSettings
        (st\<lparr>settings := (settings st)
               \<lparr>visibleFolderName := (if v = [] then ''Obsidian Vault'' else v)\<rparr>\<rparr>))
       \<lparr>visibleFolderId := None\<rparr>"

section \<open>Per-file operations\<close>

definition search_endpoint :: "'w plugin \<Rightarrow> string \<Rightarrow> endpoint" where
  "search_endpoint st fileName =
     (''files'',
      (''q'', getSearchQuery st fileName) #
      (if truthy (getSearchSpace st) then [(''spaces'', the (getSearchSpace st))] else []))"

definition file_endpoint :: "string \<Rightarrow> endpoint" where
  "file_endpoint fileId = (''files/'' @ fileId, [])"

definition media_endpoint :: "string \<Rightarrow> endpoint" where
  "media_endpoint fileId = (''files/'' @ fileId, [(''uploadType'', ''media'')])"

definition multipart_endpoint :: endpoint where
  "multipart_endpoint = (''files'', [(''uploadType'', ''multipart'')])"

definition media_update_options :: "string \<Rightarrow> options" where
  "media_update_options content =
     \<lparr>opt_method = Some PATCH, opt_headers = [(''Content-Type'', ''text/plain'')],
      opt_body = Payload (Text content)\<rparr>"

definition multipart_create_options :: "string \<Rightarrow> string list \<Rightarrow> string \<Rightarrow> options" where
  "multipart_create_options fileName parents content =
     \<lparr>opt_method = Some POST, opt_headers = [],
      opt_body = FormData
        [(''metadata'',
          Json (JObj [(''name'', JStr fileName), (''parents'', JArr (map JStr parents))]),
          ''application/json''),
         (''file'', Text content, ''text/plain'')]\<rparr>"

definition rename_options :: "string \<Rightarrow> options" where
  "rename_options newPath =
     \<lparr>opt_method = Some PATCH, opt_headers = [],
      opt_body = Payload (Json (JObj [(''name'', JStr newPath)]))\<rparr>"

definition delete_options :: options where
  "delete_options = \<lparr>opt_method = Some DELETE, opt_headers = [], opt_body = NoBody\<rparr>"

text \<open>
  \<open>syncFile\<close> (lines 374-432), \<open>handleFileRename\<close> (lines 434-478) and
  \<open>handleFileDelete\<close> (lines 480-512); each is the body of its \<open>try\<close> block
  and then the \<open>catch\<close> around it. A file is given by its path.
\<close>

definition syncFile_try ::
  "'w env \<Rightarrow> nat \<Rightarrow> string \<Rightarrow> 'w plugin \<Rightarrow> ((error + unit) \<times> 'w plugin) option" where
  "syncFile_try env n file st =
     await (read_file env file st)
       (\<lambda>content st0.
          await (ensure_namespace env n st0)
            (\<lambda>_ st1.
               await (getDriveFile env n (search_endpoint st1 file) no_options st1)
                 (\<lambda>response st2.
                    case first_file response of
                      Some f \<Rightarrow>
                        await (driveUploadRequest env n (media_endpoint (file_id f))
                                 (media_update_options content) st2)
                          (\<lambda>_ st3. Some (Inr (), st3))
                    | None \<Rightarrow>
                        await (driveUploadRequest env n multipart_endpoint
                                 (multipart_create_options file (getParentId st2) content) st2)
                          (\<lambda>_ st3. Some (Inr (), st3)))))"

definition syncFile :: "'w env \<Rightarrow> nat \<Rightarrow> string \<Rightarrow> 'w plugin \<Rightarrow> 'w plugin option" where
  "syncFile env n file st =
     (case syncFile_try env n file st of
        None \<Rightarrow> None
      | Some (Inl e, st') \<Rightarrow> Some (console_error (''Error syncing file '' @ file @ '':'') e st')
      | Some (Inr _, st') \<Rightarrow> Some st')"

definition handleFileRename_try ::
  "'w env \<Rightarrow> nat \<Rightarrow> string \<Rightarrow> string \<Rightarrow> 'w plugin \<Rightarrow> ((error + unit) \<times> 'w plugin) option" where
  "handleFileRename_try env n file oldPath st =
     await (ensure_namespace env n st)
       (\<lambda>_ st1.
          await (getDriveFile env n (search_endpoint st1 oldPath) no_options st1)
            (\<lambda>oldFileResponse st2.
               case first_file oldFileResponse of
                 Some f \<Rightarrow>
                   await (driveApiRequest env n (file_endpoint (file_id f))
                            (rename_options file) st2)
                     (\<lambda>_ st3.
                        await (read_file env file st3)
                          (\<lambda>content st4.
                             await (driveUploadRequest env n (media_endpoint (file_id f))
                                      (media_update_options content) st4)
                               (\<lambda>_ st5. Some (Inr (), st5))))
               | None \<Rightarrow>
                   (case syncFile env n file st2 of
                      None \<Rightarrow> None
                    | Some st3 \<Rightarrow> Some (Inr (), st3))))"

definition handleFileRename ::
  "'w env \<Rightarrow> nat \<Rightarrow> string \<Rightarrow> string \<Rightarrow> 'w plugin \<Rightarrow> 'w plugin option" where
  "handleFileRename env n file oldPath st =
     (case handleFileRename_try env n file oldPath st of
        None \<Rightarrow> None
      | Some (Inl e, st') \<Rightarrow>
          Some (console_error
                  (''Error handling file rename from '' @ oldPath @ '' to '' @ file @ '':'') e st')
      | Some (Inr _, st') \<Rightarrow> Some st')"

definition handleFileDelete_try ::
  "'w env \<Rightarrow> nat \<Rightarrow> string \<Rightarrow> 'w plugin \<Rightarrow> ((error + unit) \<times> 'w plugin) option" where
  "handleFileDelete_try env n file st =
     await (ensure_namespace env n st)
       (\<lambda>_ st1.
          await (getDriveFile env n (search_endpoint st1 file) no_options st1)
            (\<lambda>response st2.
               case first_file response of
                 Some f \<Rightarrow>
                   await (driveApiRequest env n (file_endpoint (file_id f)) delete_options st2)
                     (\<lambda>_ st3.
                        Some (Inr (),
                              console_log (''Deleted file '' @ file @ '' from Google Drive'') st3))
               | None \<Rightarrow>
                   Some (Inr (),
                         console_log
                           (''File '' @ file @ '' not found on Google Drive, nothing to delete'')
                           st2)))"

definition handleFileDelete :: "'w env \<Rightarrow> nat \<Rightarrow> string \<Rightarrow> 'w plugin \<Rightarrow> 'w plugin option" where
  "handleFileDelete env n file st =
     (case handleFileDelete_try env n file st of
        None \<Rightarrow> None
      | Some (Inl e, st') \<Rightarrow>
          Some (console_error
                  (''Error deleting file '' @ file @ '' from Google Drive:'') e st')
      | Some (Inr _, st') \<Rightarrow> Some st')"

section \<open>The full pass\<close>

text \<open>
  \<open>downloadFile\<close> (lines 351-372), \<open>downloadMissingFiles\<close> (lines 320-349)
  with its loop over the listed files, and \<open>syncVault\<close> (lines 290-318).
\<close>

definition download_request :: "string \<Rightarrow> string option \<Rightarrow> request" where
  "download_request fileId tok =
     \<lparr>req_base = DriveApi, req_endpoint = (''files/'' @ fileId, [(''alt'', ''media'')]),
      req_method = GET, req_headers = [(''Authorization'', bearer tok)], req_body = NoBody\<rparr>"

definition downloadFile_try ::
  "'w env \<Rightarrow> string \<Rightarrow> string \<Rightarrow> 'w plugin \<Rightarrow> (error + unit) \<times> 'w plugin" where
  "downloadFile_try env fileId fileName st =
     (case do_fetch env (download_request fileId (accessToken st)) st of
        (None, st1) \<Rightarrow> (Inl FetchRejected, st1)
      | (Some r, st1) \<Rightarrow>
          if \<not> response_ok r then (Inl (DownloadFailed (resp_status r)), st1)
          else
            (case vault_create env fileName (resp_text r) (world st1) of
               (created, w) \<Rightarrow>
                 if created
                 then (Inr (),
                       console_log (''Downloaded file: '' @ fileName)
                         (st1\<lparr>world := w,
                              trace := trace st1 @ [VaultCreate fileName (resp_text r)]\<rparr>))
                 else (Inl VaultRejected,
                       st1\<lparr>world := w,
                            trace := trace st1 @ [VaultCreate fileName (resp_text r)]\<rparr>)))"

definition downloadFile :: "'w env \<Rightarrow> string \<Rightarrow> string \<Rightarrow> 'w plugin \<Rightarrow> 'w plugin" where
  "downloadFile env fileId fileName st =
     (case downloadFile_try env fileId fileName st of
        (Inl e, st') \<Rightarrow> console_error (''Error downloading file '' @ fileName @ '':'') e st'
      | (Inr _, st') \<Rightarrow> st')"

definition download_step :: "'w env \<Rightarrow> drive_file \<Rightarrow> 'w plugin \<Rightarrow> 'w plugin" where
  "download_step env driveFile st =
     (if \<not> vault_getAbstractFileByPath env (file_name driveFile) (world st)
      then downloadFile env (file_id driveFile) (file_name driveFile) st
      else st)"

fun download_loop :: "'w env \<Rightarrow> drive_file list \<Rightarrow> 'w plugin \<Rightarrow> 'w plugin" where
  "download_loop env [] st = st"
| "download_loop env (driveFile # rest) st = download_loop env rest (download_step env driveFile st)"

definition listing_endpoint :: "'w plugin \<Rightarrow> endpoint" where
  "listing_endpoint st =
     (if storageLocation (settings st) = Visible \<and> truthy (visibleFolderId st)
      then (''files'',
            [(''q'', ''parents in '' @ sq (the (visibleFolderId st)) @ '' and mimeType != '' @
                     sq folder_mime @ '' and trashed=false'')])
      else (''files'',
            [(''q'', ''parents in '' @ sq ''appDataFolder'' @ '' and mimeType != '' @
                     sq folder_mime @ '' and trashed=false''),
             (''spaces'', ''appDataFolder'')]))"

definition downloadMissingFiles :: "'w env \<Rightarrow> nat \<Rightarrow> 'w plugin \<Rightarrow> 'w plugin option" where
  "downloadMissingFiles env n st =
     (case getDriveFile env n (listing_endpoint st) no_options st of
        None \<Rightarrow> None
      | Some (Inl e, st1) \<Rightarrow> Some (console_error ''Error downloading missing files:'' e st1)
      | Some (Inr response, st1) \<Rightarrow>
          (case j_files response of
             None \<Rightarrow> Some st1
           | Some fs \<Rightarrow> if fs \<noteq> [] then Some (download_loop env fs st1) else Some st1))"

text \<open>The upload loop of \<open>syncVault\<close>: \<open>for (const file of files) await this.syncFile(file)\<close>.\<close>

fun sync_files :: "'w env \<Rightarrow> nat \<Rightarrow> string list \<Rightarrow> 'w plugin \<Rightarrow> 'w plugin option" where
  "sync_files env n [] st = Some st"
| "sync_files env n (file # files) st =
     (case syncFile env n file st of
        None \<Rightarrow> None
      | Some st1 \<Rightarrow> sync_files env n files st1)"

definition syncVault_try ::
  "'w env \<Rightarrow> nat \<Rightarrow> 'w plugin \<Rightarrow> ((error + unit) \<times> 'w plugin) option" where
  "syncVault_try env n st =
     await (ensure_namespace env n (notice ''Starting vault sync...'' st))
       (\<lambda>_ st1.
          case downloadMissingFiles env n st1 of
            None \<Rightarrow> None
          | Some st2 \<Rightarrow>
              (case sync_files env n (vault_getFiles env (world st2)) st2 of
                 None \<Rightarrow> None
               | Some st3 \<Rightarrow> Some (Inr (), notice ''Vault sync completed!'' st3)))"

definition syncVault :: "'w env \<Rightarrow> nat \<Rightarrow> 'w plugin \<Rightarrow> 'w plugin option" where
  "syncVault env n st =
     (if \<not> truthy (accessToken st)
      then Some (notice ''Please authenticate with Google Drive first.'' st)
      else
        (case syncVault_try env n st of
           None \<Rightarrow> None
         | Some (Inl e, st') \<Rightarrow>
             Some (notice ''Sync failed. Check console for details.''
                     (console_error ''Sync error:'' e st'))
         | Some (Inr _, st') \<Rightarrow> Some st'))"

section \<open>Reading the trace\<close>

text \<open>
  \<open>attempts mk ds\<close>: the events \<open>ds\<close> are requests only, each of them a token
  refresh or the call \<open>mk\<close> carrying some access token.
\<close>

definition attempts :: "(string option \<Rightarrow> request) \<Rightarrow> event list \<Rightarrow> bool" where
  "attempts mk ds \<longleftrightarrow>
     (\<forall>e \<in> set ds. \<exists>rq. e = Fetch rq \<and> (req_base rq = OAuthToken \<or> (\<exists>tok. rq = mk tok)))"

definition is_refresh :: "event \<Rightarrow> bool" where
  "is_refresh e = (case e of Fetch rq \<Rightarrow> req_base rq = OAuthToken | _ \<Rightarrow> False)"

definition is_call :: "url_base \<Rightarrow> endpoint \<Rightarrow> http_method \<Rightarrow> event \<Rightarrow> bool" where
  "is_call b ep m e =
     (case e of Fetch rq \<Rightarrow> req_base rq = b \<and> req_endpoint rq = ep \<and> req_method rq = m
      | _ \<Rightarrow> False)"

definition reads :: "event list \<Rightarrow> string list" where
  "reads ds = concat (map (\<lambda>e. case e of VaultRead p \<Rightarrow> [p] | _ \<Rightarrow> []) ds)"

section \<open>A scripted environment\<close>

text \<open>
  For the scenarios: a remote that answers the requests it receives with the
  next response of a script (and rejects once the script is used up), and a
  vault that is a list of paths with their contents.
\<close>

record sim =
  sim_responses :: "response option list"
  sim_vault :: "(string \<times> string) list"

definition sim_env :: "sim env" where
  "sim_env =
     \<lparr>fetch = (\<lambda>rq w. case sim_responses w of
                         [] \<Rightarrow> (None, w)
                       | r # rs \<Rightarrow> (r, w\<lparr>sim_responses := rs\<rparr>)),
      vault_read = (\<lambda>p w. map_of (sim_vault w) p),
      vault_getAbstractFileByPath = (\<lambda>p w. map_of (sim_vault w) p \<noteq> None),
      vault_create = (\<lambda>p c w. if map_of (sim_vault w) p \<noteq> None then (False, w)
                               else (True, w\<lparr>sim_vault := sim_vault w @ [(p, c)]\<rparr>)),
      vault_getFiles = (\<lambda>w. map fst (sim_vault w))\<rparr>"

definition no_json :: json where
  "no_json = \<lparr>j_files = None, j_id = None, j_access_token = None, j_refresh_token = None\<rparr>"

definition answer :: "nat \<Rightarrow> json \<Rightarrow> response option" where
  "answer code j = Some \<lparr>resp_status = code, resp_json = Some j, resp_text = []\<rparr>"

definition token_answer :: "string \<Rightarrow> response option" where
  "token_answer t = answer 200 (no_json\<lparr>j_access_token := Some t\<rparr>)"

definition files_answer :: "drive_file list \<Rightarrow> response option" where
  "files_answer fs = answer 200 (no_json\<lparr>j_files := Some fs\<rparr>)"

text \<open>The plugin object as its constructor leaves it, with the given settings.\<close>

definition new_plugin :: "drive_settings \<Rightarrow> 'w \<Rightarrow> 'w plugin" where
  "new_plugin s w =
     \<lparr>settings = s, accessToken = None, syncIntervalId = None, visibleFolderId = None,
      saved = None, timers = [], world = w, trace = []\<rparr>"

text \<open>Calls of \<open>startAutoSync\<close> (with the handle the host returns) and \<open>stopAutoSync\<close>, in any order.\<close>

datatype timer_call = StartAutoSync nat | StopAutoSync

fun timer_calls :: "timer_call list \<Rightarrow> 'w plugin \<Rightarrow> 'w plugin" where
  "timer_calls [] st = st"
| "timer_calls (StartAutoSync h # cs) st = timer_calls cs (startAutoSync h st)"
| "timer_calls (StopAutoSync # cs) st = timer_calls cs (stopAutoSync st)"

section \<open>Vocabulary of the proofs\<close>

text \<open>What a request of the client leaves alone: everything but the token, the world and the trace.\<close>

definition unchanged :: "'w plugin \<Rightarrow> 'w plugin \<Rightarrow> bool" where
  "unchanged st st' \<longleftrightarrow>
     settings st' = settings st \<and> visibleFolderId st' = visibleFolderId st \<and>
     syncIntervalId st' = syncIntervalId st \<and> saved st' = saved st \<and> timers st' = timers st"

definition calls :: "(string option \<Rightarrow> request) \<Rightarrow> 'w plugin \<Rightarrow> 'w plugin \<Rightarrow> bool" where
  "calls mk st st' \<longleftrightarrow> unchanged st st' \<and> (\<exists>ds. trace st' = trace st @ ds \<and> attempts mk ds)"

datatype 'w outcome = Done "(error + json) \<times> 'w plugin" | Retry "'w plugin"

definition attempt ::
  "'w env \<Rightarrow> (string option \<Rightarrow> request) \<Rightarrow> (nat \<Rightarrow> error) \<Rightarrow> 'w plugin \<Rightarrow> 'w outcome" where
  "attempt env mk err st =
     (case ensure_token env st of
        (Inl e, st1) \<Rightarrow> Done (Inl e, st1)
      | (Inr _, st1) \<Rightarrow>
          (case do_fetch env (mk (accessToken st1)) st1 of
             (None, st2) \<Rightarrow> Done (Inl FetchRejected, st2)
           | (Some r, st2) \<Rightarrow>
               if resp_status r = 401 then
                 (case refreshAccessToken env st2 of
                    (Inl e, st3) \<Rightarrow> Done (Inl e, st3)
                  | (Inr _, st3) \<Rightarrow> Retry st3)
               else if \<not> response_ok r then Done (Inl (err (resp_status r)), st2)
               else
                 (case resp_json r of
                    None \<Rightarrow> Done (Inl JsonRejected, st2)
                  | Some j \<Rightarrow> Done (Inr j, st2))))"

fun final :: "'w outcome \<Rightarrow> 'w plugin" where
  "final (Done x) = snd x"
| "final (Retry st) = st"

text \<open>The loop that the two recursive requests share: attempts until one is final.\<close>

fun retry_loop ::
  "'w env \<Rightarrow> (string option \<Rightarrow> request) \<Rightarrow> (nat \<Rightarrow> error) \<Rightarrow> nat \<Rightarrow> 'w plugin \<Rightarrow>
     ((error + json) \<times> 'w plugin) option" where
  "retry_loop env mk err 0 st = None"
| "retry_loop env mk err (Suc n) st =
     (case attempt env mk err st of
        Done x \<Rightarrow> Some x
      | Retry st3 \<Rightarrow> retry_loop env mk err n st3)"

definition result_of :: "(('e + 'a) \<times> 's) option \<Rightarrow> ('e + 'a) option" where
  "result_of x = map_option fst x"

definition trace_of :: "('a \<times> 'w plugin) option \<Rightarrow> event list" where
  "trace_of x = (case x of None \<Rightarrow> [] | Some y \<Rightarrow> trace (snd y))"

definition count_calls :: "url_base \<Rightarrow> endpoint \<Rightarrow> http_method \<Rightarrow> event list \<Rightarrow> nat" where
  "count_calls b ep m ds = length (filter (is_call b ep m) ds)"

definition count_refreshes :: "event list \<Rightarrow> nat" where
  "count_refreshes ds = length (filter is_refresh ds)"

text \<open>\<open>k\<close> times: a 401 answer to the request, then a new token \<open>t\<close> for the refresh.\<close>

definition unauthorized_rounds :: "nat \<Rightarrow> string \<Rightarrow> response option list" where
  "unauthorized_rounds k t = concat (replicate k [answer 401 no_json, token_answer t])"

definition timer_invariant :: "'w plugin \<Rightarrow> bool" where
  "timer_invariant st \<longleftrightarrow>
     timers st = (if truthy_num (syncIntervalId st) then [the (syncIntervalId st)] else [])"

text \<open>
  States of the scenarios. \<open>signed_in\<close> holds a refresh token and the access
  token \<open>t0\<close>, in hidden mode; \<open>script\<close> sets the answers the remote will
  give, in order, and \<open>with_vault\<close> the files of the vault.
\<close>

definition signed_in :: "sim plugin" where
  "signed_in =
     (new_plugin (DEFAULT_SETTINGS\<lparr>refreshToken := ''r''\<rparr>)
        \<lparr>sim_responses = [], sim_vault = []\<rparr>)
       \<lparr>accessToken := Some ''t0''\<rparr>"

definition script :: "response option list \<Rightarrow> sim plugin \<Rightarrow> sim plugin" where
  "script rs st = st\<lparr>world := (world st)\<lparr>sim_responses := rs\<rparr>\<rparr>"

definition with_vault :: "(string \<times> string) list \<Rightarrow> sim plugin \<Rightarrow> sim plugin" where
  "with_vault v st = st\<lparr>world := (world st)\<lparr>sim_vault := v\<rparr>\<rparr>"

text \<open>401 to the request, a new token, 401 to the retry, a new token, then a listing.\<close>

definition twice_unauthorized :: "sim plugin" where
  "twice_unauthorized = script (unauthorized_rounds 2 ''t1'' @ [files_answer []]) signed_in"

definition final_trace :: "'w plugin option \<Rightarrow> event list" where
  "final_trace x = (case x of None \<Rightarrow> [] | Some st \<Rightarrow> trace st)"

text \<open>\<open>k\<close> invocations of \<open>ensureVisibleFolderExists\<close> in a row, as its callers make them.\<close>

fun ensure_repeatedly :: "'w env \<Rightarrow> nat \<Rightarrow> nat \<Rightarrow> 'w plugin \<Rightarrow> 'w plugin option" where
  "ensure_repeatedly env n 0 st = Some st"
| "ensure_repeatedly env n (Suc k) st =
     (case ensureVisibleFolderExists env n st of
        None \<Rightarrow> None
      | Some x \<Rightarrow> ensure_repeatedly env n k (snd x))"

text \<open>
  Visible mode with nothing cached. The listing finds no folder and the create
  call is answered 500; the next listing finds no folder either and the
  create call succeeds.
\<close>

definition create_fails_once :: "sim plugin" where
  "create_fails_once =
     script [files_answer [], answer 500 no_json,
             files_answer [], answer 200 (no_json\<lparr>j_id := Some ''F1''\<rparr>)]
       (signed_in\<lparr>settings := (settings signed_in)\<lparr>storageLocation := Visible\<rparr>\<rparr>)"

text \<open>
  Visible mode: with the id \<open>F1\<close> cached, with a folder that the listing finds,
  and with none, so that the folder is created with the id \<open>F2\<close>.
\<close>

definition resolved :: "sim plugin" where
  "resolved =
     signed_in\<lparr>settings := (settings signed_in)\<lparr>storageLocation := Visible\<rparr>,
               visibleFolderId := Some ''F1''\<rparr>"

definition folder_found :: "sim plugin" where
  "folder_found =
     script [files_answer [\<lparr>file_id = ''F1'', file_name = ''Obsidian Vault''\<rparr>]]
       (signed_in\<lparr>settings := (settings signed_in)\<lparr>storageLocation := Visible\<rparr>\<rparr>)"

definition folder_missing :: "sim plugin" where
  "folder_missing =
     script [files_answer [], answer 200 (no_json\<lparr>j_id := Some ''F2''\<rparr>)]
       (signed_in\<lparr>settings := (settings signed_in)\<lparr>storageLocation := Visible\<rparr>\<rparr>)"

text \<open>
  The vault holds \<open>a.md\<close>. On the remote the query finds two entries of that
  name and the upload succeeds, or it finds none and the upload succeeds.
\<close>

definition one_note :: "sim plugin" where
  "one_note = with_vault [(''a.md'', ''hello'')] signed_in"

definition note_on_remote :: "sim plugin" where
  "note_on_remote =
     script [files_answer [\<lparr>file_id = ''X1'', file_name = ''a.md''\<rparr>,
                           \<lparr>file_id = ''X2'', file_name = ''a.md''\<rparr>],
             answer 200 (no_json\<lparr>j_id := Some ''X1''\<rparr>)] one_note"

definition note_not_on_remote :: "sim plugin" where
  "note_not_on_remote =
     script [files_answer [], answer 200 (no_json\<lparr>j_id := Some ''X3''\<rparr>)] one_note"

text \<open>The answer 204 with an empty body, on which \<open>response.json()\<close> rejects.\<close>

definition no_content :: "response option" where
  "no_content = Some \<lparr>resp_status = 204, resp_json = None, resp_text = []\<rparr>"

text \<open>
  One remote entry named \<open>a.md\<close>: found by a first query, deleted, not found
  by a second query. Two remote entries of that name: both found by a first
  query, the first deleted, the second found by a second query, and deleted.
\<close>

definition one_remote_copy :: "sim plugin" where
  "one_remote_copy =
     script [files_answer [\<lparr>file_id = ''X1'', file_name = ''a.md''\<rparr>], no_content,
             files_answer []] signed_in"

definition two_remote_copies :: "sim plugin" where
  "two_remote_copies =
     script [files_answer [\<lparr>file_id = ''X1'', file_name = ''a.md''\<rparr>,
                           \<lparr>file_id = ''X2'', file_name = ''a.md''\<rparr>], no_content,
             files_answer [\<lparr>file_id = ''X2'', file_name = ''a.md''\<rparr>], no_content] signed_in"

definition delete_twice :: "string \<Rightarrow> sim plugin \<Rightarrow> sim plugin option" where
  "delete_twice file st =
     (case handleFileDelete sim_env 1 file st of
        None \<Rightarrow> None
      | Some st1 \<Rightarrow> handleFileDelete sim_env 1 file st1)"

text \<open>
  \<open>a.md\<close> has been renamed to \<open>b.md\<close>. The remote has \<open>a.md\<close> (the query for
  the old path finds it, both PATCH requests succeed); or it has neither path
  (both queries find nothing, the create succeeds); or it has no \<open>a.md\<close> but
  a \<open>b.md\<close> (the query for the old path finds nothing, the query for the
  new path finds \<open>X9\<close>, the upload succeeds).
\<close>

definition renamed_note :: "sim plugin" where
  "renamed_note =
     script [files_answer [\<lparr>file_id = ''X1'', file_name = ''a.md''\<rparr>],
             answer 200 (no_json\<lparr>j_id := Some ''X1''\<rparr>),
             answer 200 (no_json\<lparr>j_id := Some ''X1''\<rparr>)]
       (with_vault [(''b.md'', ''hello'')] signed_in)"

definition renamed_unsynced :: "sim plugin" where
  "renamed_unsynced =
     script [files_answer [], files_answer [], answer 200 (no_json\<lparr>j_id := Some ''X5''\<rparr>)]
       (with_vault [(''b.md'', ''hello'')] signed_in)"

definition renamed_over_existing :: "sim plugin" where
  "renamed_over_existing =
     script [files_answer [], files_answer [\<lparr>file_id = ''X9'', file_name = ''b.md''\<rparr>],
             answer 200 (no_json\<lparr>j_id := Some ''X9''\<rparr>)]
       (with_vault [(''b.md'', ''hello'')] signed_in)"

definition text_answer :: "string \<Rightarrow> response option" where
  "text_answer s = Some \<lparr>resp_status = 200, resp_json = None, resp_text = s\<rparr>"

text \<open>
  The vault holds \<open>a.md\<close>; the remote lists \<open>a.md\<close> and \<open>b.md\<close> and answers
  the download with the text \<open>remote b\<close>.
\<close>

definition remote_has_more :: "sim plugin" where
  "remote_has_more =
     script [files_answer [\<lparr>file_id = ''R1'', file_name = ''a.md''\<rparr>,
                           \<lparr>file_id = ''R2'', file_name = ''b.md''\<rparr>],
             text_answer ''remote b'']
       (with_vault [(''a.md'', ''local a'')] signed_in)"


text \<open>
  A pass over a vault of two files: the remote lists nothing to download,
  answers the query for \<open>a.md\<close> with 500, finds no \<open>b.md\<close> and accepts its
  upload. \<open>expired\<close>: the token is refused and refreshed. \<open>download_refused\<close>:
  a download is answered 404.
\<close>

definition two_notes :: "sim plugin" where
  "two_notes =
     script [files_answer [], answer 500 no_json, files_answer [],
             answer 200 (no_json\<lparr>j_id := Some ''N2''\<rparr>)]
       (with_vault [(''a.md'', ''x''), (''b.md'', ''y'')] signed_in)"

definition expired :: "sim plugin" where
  "expired = script [answer 401 no_json, token_answer ''t1''] one_note"

definition download_refused :: "sim plugin" where
  "download_refused = script [answer 404 no_json] signed_in"

definition in_visible_mode :: "'w plugin \<Rightarrow> 'w plugin" where
  "in_visible_mode st = st\<lparr>settings := (settings st)\<lparr>storageLocation := Visible\<rparr>\<rparr>"

section \<open>Evaluation in the scripted environment\<close>

lemmas sim_eval =
  sim_env_def new_plugin_def DEFAULT_SETTINGS_def signed_in_def script_def with_vault_def
  in_visible_mode_def answer_def text_answer_def token_answer_def files_answer_def no_json_def
  refreshAccessToken_def refresh_request_def do_fetch_def ensure_token_def truthy_def
  response_ok_def getDriveFile_def api_request_def upload_request_def get_request_def
  spread_def bearer_def method_of_def no_options_def

lemmas trace_eval =
  result_of_def trace_of_def count_calls_def count_refreshes_def is_call_def is_refresh_def
  unauthorized_rounds_def twice_unauthorized_def numeral_2_eq_2 numeral_3_eq_3

lemmas op_eval =
  reads_def downloadMissingFiles_def listing_endpoint_def download_step_def downloadFile_def
  downloadFile_try_def download_request_def syncVault_def syncVault_try_def
  handleFileDelete_def handleFileDelete_try_def handleFileRename_def handleFileRename_try_def
  syncFile_def syncFile_try_def search_endpoint_def getSearchQuery_def getSearchSpace_def
  getParentId_def media_endpoint_def multipart_endpoint_def file_endpoint_def
  media_update_options_def multipart_create_options_def rename_options_def delete_options_def
  await_def first_file_def read_file_def console_error_def console_log_def notice_def
  ensureVisibleFolderExists_def ensure_namespace_def folder_list_endpoint_def folder_query_def
  folder_mime_def create_folder_options_def sq_def final_trace_def
  create_fails_once_def resolved_def folder_found_def folder_missing_def
  one_note_def note_on_remote_def note_not_on_remote_def
  no_content_def one_remote_copy_def two_remote_copies_def delete_twice_def
  renamed_note_def renamed_unsynced_def renamed_over_existing_def remote_has_more_def
  two_notes_def expired_def download_refused_def

section \<open>What the client sends\<close>


lemma attempts_Nil: "attempts mk []"
  by (simp add: attempts_def)

lemma attempts_append: "attempts mk (xs @ ys) \<longleftrightarrow> attempts mk xs \<and> attempts mk ys"
  by (auto simp: attempts_def)

lemma attempts_refresh: "attempts mk [Fetch (refresh_request s)]"
  by (simp add: attempts_def refresh_request_def)

lemma attempts_call: "attempts mk [Fetch (mk tok)]"
  by (auto simp: attempts_def)

lemma calls_refl: "calls mk st st"
  by (simp add: calls_def unchanged_def attempts_Nil)

lemma calls_trans: "calls mk st st1 \<Longrightarrow> calls mk st1 st2 \<Longrightarrow> calls mk st st2"
  by (auto simp: calls_def unchanged_def attempts_append)

lemma calls_fetch: "do_fetch env (mk tok) st = (r, st') \<Longrightarrow> calls mk st st'"
  by (auto simp: do_fetch_def calls_def unchanged_def attempts_call split: prod.splits)

lemma calls_refresh: "refreshAccessToken env st = (r, st') \<Longrightarrow> calls mk st st'"
  by (auto simp: refreshAccessToken_def do_fetch_def calls_def unchanged_def
      attempts_refresh attempts_Nil split: if_splits prod.splits option.splits)

lemma calls_ensure_token: "ensure_token env st = (r, st') \<Longrightarrow> calls mk st st'"
  by (auto simp: ensure_token_def calls_refl calls_refresh split: if_splits)

text \<open>One attempt, whatever its outcome, sends the request and refreshes, nothing else.\<close>

lemma calls_attempt: "calls mk st (final (attempt env mk err st))"
proof -
  obtain u st1 where e: "ensure_token env st = (u, st1)" by (cases "ensure_token env st")
  obtain a st2 where f: "do_fetch env (mk (accessToken st1)) st1 = (a, st2)"
    by (cases "do_fetch env (mk (accessToken st1)) st1")
  obtain v st3 where g: "refreshAccessToken env st2 = (v, st3)"
    by (cases "refreshAccessToken env st2")
  have c1: "calls mk st st1" using e by (rule calls_ensure_token)
  have c2: "calls mk st st2" using c1 calls_fetch [where mk = mk, OF f] by (rule calls_trans)
  have c3: "calls mk st st3" using c2 calls_refresh [OF g] by (rule calls_trans)
  show ?thesis
    using c1 c2 c3 by (simp add: attempt_def e f g split: sum.splits option.splits)
qed

text \<open>With a token at hand, the first thing an attempt does is to send the request.\<close>

lemma first_attempt:
  assumes "truthy (accessToken st)"
  shows "\<exists>ds. trace (final (attempt env mk err st)) = trace st @ Fetch (mk (accessToken st)) # ds"
proof -
  have e: "ensure_token env st = (Inr (), st)" using assms by (simp add: ensure_token_def)
  obtain a st2 where f: "do_fetch env (mk (accessToken st)) st = (a, st2)"
    by (cases "do_fetch env (mk (accessToken st)) st")
  obtain v st3 where g: "refreshAccessToken env st2 = (v, st3)"
    by (cases "refreshAccessToken env st2")
  have t2: "trace st2 = trace st @ [Fetch (mk (accessToken st))]"
    using f by (auto simp: do_fetch_def split: prod.splits)
  from calls_refresh [OF g, of mk] obtain ds where "trace st3 = trace st2 @ ds"
    by (auto simp: calls_def)
  with t2 have t3: "trace st3 = trace st @ Fetch (mk (accessToken st)) # ds" by simp
  show ?thesis
    using t2 t3 by (simp add: attempt_def e f g split: sum.splits option.splits)
qed

lemma driveApiRequest_Suc:
  "driveApiRequest env (Suc n) ep opts st =
     (case attempt env (api_request ep opts) DriveApiError st of
        Done x \<Rightarrow> Some x
      | Retry st3 \<Rightarrow> driveApiRequest env n ep opts st3)"
  by (simp add: attempt_def split: prod.splits sum.splits option.splits)

lemma driveUploadRequest_Suc:
  "driveUploadRequest env (Suc n) ep opts st =
     (case attempt env (upload_request ep opts) DriveUploadError st of
        Done x \<Rightarrow> Some x
      | Retry st3 \<Rightarrow> driveUploadRequest env n ep opts st3)"
  by (simp add: attempt_def split: prod.splits sum.splits option.splits)

lemma getDriveFile_attempt:
  "getDriveFile env n ep opts st =
     (case attempt env (get_request ep opts) DriveApiError st of
        Done x \<Rightarrow> Some x
      | Retry st3 \<Rightarrow> driveApiRequest env n ep opts st3)"
  by (simp add: getDriveFile_def attempt_def split: prod.splits sum.splits option.splits)

lemma calls_driveApiRequest:
  "driveApiRequest env n ep opts st = Some (r, st') \<Longrightarrow> calls (api_request ep opts) st st'"
proof (induction n arbitrary: st)
  case 0
  then show ?case by simp
next
  case (Suc n)
  have c: "calls (api_request ep opts) st
             (final (attempt env (api_request ep opts) DriveApiError st))"
    by (rule calls_attempt)
  show ?case
  proof (cases "attempt env (api_request ep opts) DriveApiError st")
    case (Done x)
    with Suc.prems c show ?thesis
      by (simp add: driveApiRequest_Suc del: driveApiRequest.simps)
  next
    case (Retry st3)
    with Suc.prems have "driveApiRequest env n ep opts st3 = Some (r, st')"
      by (simp add: driveApiRequest_Suc del: driveApiRequest.simps)
    from Suc.IH [OF this] c Retry show ?thesis by (auto intro: calls_trans)
  qed
qed

lemma calls_driveUploadRequest:
  "driveUploadRequest env n ep opts st = Some (r, st') \<Longrightarrow>
     calls (upload_request ep opts) st st'"
proof (induction n arbitrary: st)
  case 0
  then show ?case by simp
next
  case (Suc n)
  have c: "calls (upload_request ep opts) st
             (final (attempt env (upload_request ep opts) DriveUploadError st))"
    by (rule calls_attempt)
  show ?case
  proof (cases "attempt env (upload_request ep opts) DriveUploadError st")
    case (Done x)
    with Suc.prems c show ?thesis
      by (simp add: driveUploadRequest_Suc del: driveUploadRequest.simps)
  next
    case (Retry st3)
    with Suc.prems have "driveUploadRequest env n ep opts st3 = Some (r, st')"
      by (simp add: driveUploadRequest_Suc del: driveUploadRequest.simps)
    from Suc.IH [OF this] c Retry show ?thesis by (auto intro: calls_trans)
  qed
qed

text \<open>
  Called without options, as everywhere in the plugin, \<open>getDriveFile\<close> builds
  the request that \<open>driveApiRequest\<close> builds: its retry is the same request.
\<close>

lemma get_request_no_options: "get_request ep no_options = api_request ep no_options"
  by (rule ext) (simp add: get_request_def api_request_def no_options_def spread_def)

lemma calls_getDriveFile:
  assumes "getDriveFile env n ep no_options st = Some (r, st')"
  shows "calls (get_request ep no_options) st st'"
proof -
  have c: "calls (get_request ep no_options) st
             (final (attempt env (get_request ep no_options) DriveApiError st))"
    by (rule calls_attempt)
  show ?thesis
  proof (cases "attempt env (get_request ep no_options) DriveApiError st")
    case (Done x)
    with assms c show ?thesis by (simp add: getDriveFile_attempt)
  next
    case (Retry st3)
    with assms have "driveApiRequest env n ep no_options st3 = Some (r, st')"
      by (simp add: getDriveFile_attempt)
    then have "calls (get_request ep no_options) st3 st'"
      by (simp add: calls_driveApiRequest get_request_no_options)
    with c Retry show ?thesis by (auto intro: calls_trans)
  qed
qed



lemma first_getDriveFile:
  assumes "truthy (accessToken st)" and "getDriveFile env n ep opts st = Some (r, st')"
  shows "\<exists>ds. trace st' = trace st @ Fetch (get_request ep opts (accessToken st)) # ds"
proof -
  from first_attempt [OF assms(1), of env "get_request ep opts" DriveApiError]
  obtain ds where t: "trace (final (attempt env (get_request ep opts) DriveApiError st)) =
      trace st @ Fetch (get_request ep opts (accessToken st)) # ds" by blast
  show ?thesis
  proof (cases "attempt env (get_request ep opts) DriveApiError st")
    case (Done x)
    with assms(2) t show ?thesis by (simp add: getDriveFile_attempt)
  next
    case (Retry st3)
    with assms(2) have "driveApiRequest env n ep opts st3 = Some (r, st')"
      by (simp add: getDriveFile_attempt)
    from calls_driveApiRequest [OF this] obtain es where "trace st' = trace st3 @ es"
      by (auto simp: calls_def)
    with t Retry show ?thesis by simp
  qed
qed

section \<open>Rounds of 401 answers in the scripted environment\<close>

lemma driveApiRequest_retry_loop:
  "driveApiRequest env n ep opts st = retry_loop env (api_request ep opts) DriveApiError n st"
  by (induction n arbitrary: st)
    (simp_all add: driveApiRequest_Suc del: driveApiRequest.simps(2) split: outcome.splits)

lemma driveUploadRequest_retry_loop:
  "driveUploadRequest env n ep opts st =
     retry_loop env (upload_request ep opts) DriveUploadError n st"
  by (induction n arbitrary: st)
    (simp_all add: driveUploadRequest_Suc del: driveUploadRequest.simps(2) split: outcome.splits)

lemma sim_attempt_retry:
  assumes "truthy (accessToken st)" and "refreshToken (settings st) \<noteq> []"
    and "sim_responses (world st) = answer 401 no_json # token_answer t # rest"
  shows "attempt sim_env mk err st =
     Retry (st\<lparr>accessToken := Some t, world := (world st)\<lparr>sim_responses := rest\<rparr>,
               trace := trace st @ [Fetch (mk (accessToken st)),
                                    Fetch (refresh_request (settings st))]\<rparr>)"
  using assms
  by (simp add: attempt_def ensure_token_def do_fetch_def refreshAccessToken_def sim_env_def
      answer_def token_answer_def no_json_def response_ok_def)

lemma sim_attempt_done:
  assumes "truthy (accessToken st)"
    and "sim_responses (world st) = answer 200 j # rest"
  shows "attempt sim_env mk err st =
     Done (Inr j, st\<lparr>world := (world st)\<lparr>sim_responses := rest\<rparr>,
                      trace := trace st @ [Fetch (mk (accessToken st))]\<rparr>)"
  using assms
  by (simp add: attempt_def ensure_token_def do_fetch_def sim_env_def
      answer_def response_ok_def)

lemma is_refresh_refresh_request [simp]:
  "is_refresh (Fetch (refresh_request s))"
  by (simp add: is_refresh_def refresh_request_def)

lemma sim_retry_loop_rounds:
  assumes call: "\<And>tok. is_call b ep m (Fetch (mk tok))"
    and base: "b \<noteq> OAuthToken"
    and tok: "truthy (accessToken st)" and rt: "refreshToken (settings st) \<noteq> []"
    and t: "t \<noteq> []"
    and rs: "sim_responses (world st) = unauthorized_rounds k t @ answer 200 j # rest"
  shows "\<exists>st'. retry_loop sim_env mk err (Suc k) st = Some (Inr j, st') \<and>
           (\<exists>ds. trace st' = trace st @ ds \<and> count_calls b ep m ds = Suc k \<and>
                 count_refreshes ds = k)"
  using tok rt rs
proof (induction k arbitrary: st)
  case 0
  have nr: "\<not> is_refresh (Fetch (mk (accessToken st)))"
    using call [of "accessToken st"] base by (auto simp: is_call_def is_refresh_def)
  from 0 have "sim_responses (world st) = answer 200 j # rest"
    by (simp add: unauthorized_rounds_def)
  from sim_attempt_done [OF "0.prems"(1) this, of mk err] call nr
  show ?case by (simp add: count_calls_def count_refreshes_def)
next
  case (Suc k)
  let ?st3 = "st\<lparr>accessToken := Some t,
                   world := (world st)\<lparr>sim_responses := unauthorized_rounds k t @ answer 200 j # rest\<rparr>,
                   trace := trace st @ [Fetch (mk (accessToken st)),
                                        Fetch (refresh_request (settings st))]\<rparr>"
  have nr: "\<not> is_refresh (Fetch (mk (accessToken st)))"
    using call [of "accessToken st"] base by (auto simp: is_call_def is_refresh_def)
  have nc: "\<not> is_call b ep m (Fetch (refresh_request (settings st)))"
    using base by (auto simp: is_call_def refresh_request_def)
  from Suc.prems have "sim_responses (world st) =
      answer 401 no_json # token_answer t # unauthorized_rounds k t @ answer 200 j # rest"
    by (simp add: unauthorized_rounds_def)
  from sim_attempt_retry [OF Suc.prems(1,2) this, of mk err]
  have a: "attempt sim_env mk err st = Retry ?st3" .
  have "truthy (accessToken ?st3)" using t by (simp add: truthy_def)
  moreover have "refreshToken (settings ?st3) \<noteq> []" using Suc.prems(2) by simp
  moreover have "sim_responses (world ?st3) = unauthorized_rounds k t @ answer 200 j # rest"
    by simp
  ultimately obtain st' ds where
    r: "retry_loop sim_env mk err (Suc k) ?st3 = Some (Inr j, st')"
    and d: "trace st' = trace ?st3 @ ds" "count_calls b ep m ds = Suc k" "count_refreshes ds = k"
    using Suc.IH [of ?st3] by blast
  have "retry_loop sim_env mk err (Suc (Suc k)) st = Some (Inr j, st')"
    using a r by simp
  moreover have "trace st' = trace st @
      (Fetch (mk (accessToken st)) # Fetch (refresh_request (settings st)) # ds)"
    using d(1) by simp
  moreover have "count_calls b ep m
      (Fetch (mk (accessToken st)) # Fetch (refresh_request (settings st)) # ds) = Suc (Suc k)"
    using d(2) call [of "accessToken st"] nc by (simp add: count_calls_def)
  moreover have "count_refreshes
      (Fetch (mk (accessToken st)) # Fetch (refresh_request (settings st)) # ds) = Suc k"
    using d(3) nr by (simp add: count_refreshes_def)
  ultimately show ?case by blast
qed

lemma is_call_api_request: "is_call DriveApi ep (method_of opts) (Fetch (api_request ep opts tok))"
  by (simp add: is_call_def api_request_def Let_def)

lemma is_call_upload_request:
  "is_call DriveUpload ep (method_of opts) (Fetch (upload_request ep opts tok))"
  by (simp add: is_call_def upload_request_def)

lemma is_call_get_request: "is_call DriveApi ep (method_of opts) (Fetch (get_request ep opts tok))"
  by (simp add: is_call_def get_request_def)

lemma trace_of_Some [simp]: "trace_of (Some (r, st)) = trace st"
  by (simp add: trace_of_def)

lemma result_of_Some [simp]: "result_of (Some (r, st)) = Some r"
  by (simp add: result_of_def)

lemma sim_getDriveFile_rounds:
  assumes tok: "truthy (accessToken st)" and rt: "refreshToken (settings st) \<noteq> []"
    and t: "t \<noteq> []"
    and rs: "sim_responses (world st) = unauthorized_rounds k t @ answer 200 j # rest"
  shows "\<exists>st'. getDriveFile sim_env k ep opts st = Some (Inr j, st') \<and>
           (\<exists>ds. trace st' = trace st @ ds \<and> count_calls DriveApi ep (method_of opts) ds = Suc k \<and>
                 count_refreshes ds = k)"
proof (cases k)
  case 0
  have nr: "\<not> is_refresh (Fetch (get_request ep opts (accessToken st)))"
    by (simp add: is_refresh_def get_request_def)
  from 0 rs have "sim_responses (world st) = answer 200 j # rest"
    by (simp add: unauthorized_rounds_def)
  from sim_attempt_done [OF tok this, of "get_request ep opts" DriveApiError] nr 0
  show ?thesis
    by (simp add: getDriveFile_attempt count_calls_def count_refreshes_def is_call_get_request)
next
  case (Suc k')
  let ?st3 = "st\<lparr>accessToken := Some t,
                   world := (world st)\<lparr>sim_responses := unauthorized_rounds k' t @ answer 200 j # rest\<rparr>,
                   trace := trace st @ [Fetch (get_request ep opts (accessToken st)),
                                        Fetch (refresh_request (settings st))]\<rparr>"
  have nr: "\<not> is_refresh (Fetch (get_request ep opts (accessToken st)))"
    by (simp add: is_refresh_def get_request_def)
  have nc: "\<not> is_call DriveApi ep (method_of opts) (Fetch (refresh_request (settings st)))"
    by (simp add: is_call_def refresh_request_def)
  from Suc rs have "sim_responses (world st) =
      answer 401 no_json # token_answer t # unauthorized_rounds k' t @ answer 200 j # rest"
    by (simp add: unauthorized_rounds_def)
  from sim_attempt_retry [OF tok rt this, of "get_request ep opts" DriveApiError]
  have a: "attempt sim_env (get_request ep opts) DriveApiError st = Retry ?st3" .
  have h1: "truthy (accessToken ?st3)" using t by (simp add: truthy_def)
  have h2: "refreshToken (settings ?st3) \<noteq> []" using rt by simp
  have h3: "sim_responses (world ?st3) = unauthorized_rounds k' t @ answer 200 j # rest"
    by simp
  have "\<exists>st'. retry_loop sim_env (api_request ep opts) DriveApiError (Suc k') ?st3 = Some (Inr j, st') \<and>
           (\<exists>ds. trace st' = trace ?st3 @ ds \<and> count_calls DriveApi ep (method_of opts) ds = Suc k' \<and>
                 count_refreshes ds = k')"
    by (rule sim_retry_loop_rounds [OF is_call_api_request _ h1 h2 t h3]) simp
  then obtain st' ds where
    r: "retry_loop sim_env (api_request ep opts) DriveApiError (Suc k') ?st3 = Some (Inr j, st')"
    and d: "trace st' = trace ?st3 @ ds" "count_calls DriveApi ep (method_of opts) ds = Suc k'"
      "count_refreshes ds = k'"
    by blast
  have "getDriveFile sim_env k ep opts st = Some (Inr j, st')"
    using a r Suc by (simp add: getDriveFile_attempt driveApiRequest_retry_loop)
  moreover have "trace st' = trace st @
      (Fetch (get_request ep opts (accessToken st)) # Fetch (refresh_request (settings st)) # ds)"
    using d(1) by simp
  moreover have "count_calls DriveApi ep (method_of opts)
      (Fetch (get_request ep opts (accessToken st)) # Fetch (refresh_request (settings st)) # ds) = Suc k"
    using d(2) nc Suc by (simp add: count_calls_def is_call_get_request)
  moreover have "count_refreshes
      (Fetch (get_request ep opts (accessToken st)) # Fetch (refresh_request (settings st)) # ds) = k"
    using d(3) nr Suc by (simp add: count_refreshes_def)
  ultimately show ?thesis by blast
qed

lemma calls_traceD: "calls mk st st' \<Longrightarrow> \<exists>ds. trace st' = trace st @ ds \<and> attempts mk ds"
  by (simp add: calls_def)

lemma trace_of_calls:
  assumes "\<And>r st'. m = Some (r, st') \<Longrightarrow> calls mk st st'" and "m \<noteq> None"
  shows "\<exists>ds. trace_of m = trace st @ ds \<and> attempts mk ds"
  using assms by (cases m) (auto simp: calls_def)

section \<open>Retry after an unauthorized answer (C1)\<close>

text \<open>
  Claim C1, as amended. After a 401 answer the client refreshes the access
  token and sends the same request again, and it does so after every further
  401 answer: the number of attempts has no bound. Whatever the remote
  answers, every request that \<open>driveApiRequest\<close>, \<open>driveUploadRequest\<close> and
  \<open>getDriveFile\<close> (called without options, as the plugin calls it) send
  is a token refresh or the request they were called for. When the remote answers 401 \<open>k\<close> times, each time followed by a
  successful refresh, and then answers 200, the call returns that answer
  after \<open>k + 1\<close> attempts and \<open>k\<close> refreshes, for every \<open>k\<close>.
\<close>

theorem retry_after_unauthorized:
  "(driveApiRequest env n ep opts st \<noteq> None \<longrightarrow>
      (\<exists>ds. trace_of (driveApiRequest env n ep opts st) = trace st @ ds \<and>
            attempts (api_request ep opts) ds)) \<and>
   (driveUploadRequest env n ep opts st \<noteq> None \<longrightarrow>
      (\<exists>ds. trace_of (driveUploadRequest env n ep opts st) = trace st @ ds \<and>
            attempts (upload_request ep opts) ds)) \<and>
   (getDriveFile env n ep no_options st \<noteq> None \<longrightarrow>
      (\<exists>ds. trace_of (getDriveFile env n ep no_options st) = trace st @ ds \<and>
            attempts (get_request ep no_options) ds)) \<and>
   (truthy (accessToken s) \<and> refreshToken (settings s) \<noteq> [] \<and> t \<noteq> [] \<and>
    sim_responses (world s) = unauthorized_rounds k t @ answer 200 j # rest \<longrightarrow>
      result_of (driveApiRequest sim_env (Suc k) ep opts s) = Some (Inr j) \<and>
      (\<exists>ds. trace_of (driveApiRequest sim_env (Suc k) ep opts s) = trace s @ ds \<and>
            count_calls DriveApi ep (method_of opts) ds = Suc k \<and> count_refreshes ds = k) \<and>
      result_of (driveUploadRequest sim_env (Suc k) ep opts s) = Some (Inr j) \<and>
      (\<exists>ds. trace_of (driveUploadRequest sim_env (Suc k) ep opts s) = trace s @ ds \<and>
            count_calls DriveUpload ep (method_of opts) ds = Suc k \<and> count_refreshes ds = k) \<and>
      result_of (getDriveFile sim_env k ep opts s) = Some (Inr j) \<and>
      (\<exists>ds. trace_of (getDriveFile sim_env k ep opts s) = trace s @ ds \<and>
            count_calls DriveApi ep (method_of opts) ds = Suc k \<and> count_refreshes ds = k))"
proof -
  have a: "driveApiRequest env n ep opts st \<noteq> None \<longrightarrow>
      (\<exists>ds. trace_of (driveApiRequest env n ep opts st) = trace st @ ds \<and>
            attempts (api_request ep opts) ds)"
    by (rule impI, rule trace_of_calls, erule calls_driveApiRequest, assumption)
  have b: "driveUploadRequest env n ep opts st \<noteq> None \<longrightarrow>
      (\<exists>ds. trace_of (driveUploadRequest env n ep opts st) = trace st @ ds \<and>
            attempts (upload_request ep opts) ds)"
    by (rule impI, rule trace_of_calls, erule calls_driveUploadRequest, assumption)
  have c: "getDriveFile env n ep no_options st \<noteq> None \<longrightarrow>
      (\<exists>ds. trace_of (getDriveFile env n ep no_options st) = trace st @ ds \<and>
            attempts (get_request ep no_options) ds)"
    by (rule impI, rule trace_of_calls, erule calls_getDriveFile, assumption)
  have d: "result_of (driveApiRequest sim_env (Suc k) ep opts s) = Some (Inr j) \<and>
      (\<exists>ds. trace_of (driveApiRequest sim_env (Suc k) ep opts s) = trace s @ ds \<and>
            count_calls DriveApi ep (method_of opts) ds = Suc k \<and> count_refreshes ds = k)"
    if "truthy (accessToken s)" "refreshToken (settings s) \<noteq> []" "t \<noteq> []"
      "sim_responses (world s) = unauthorized_rounds k t @ answer 200 j # rest"
    using sim_retry_loop_rounds [of DriveApi ep "method_of opts" "api_request ep opts" s t k j rest DriveApiError]
      that is_call_api_request
    by (auto simp: driveApiRequest_retry_loop)
  have e: "result_of (driveUploadRequest sim_env (Suc k) ep opts s) = Some (Inr j) \<and>
      (\<exists>ds. trace_of (driveUploadRequest sim_env (Suc k) ep opts s) = trace s @ ds \<and>
            count_calls DriveUpload ep (method_of opts) ds = Suc k \<and> count_refreshes ds = k)"
    if "truthy (accessToken s)" "refreshToken (settings s) \<noteq> []" "t \<noteq> []"
      "sim_responses (world s) = unauthorized_rounds k t @ answer 200 j # rest"
    using sim_retry_loop_rounds [of DriveUpload ep "method_of opts" "upload_request ep opts" s t k j rest DriveUploadError]
      that is_call_upload_request
    by (auto simp: driveUploadRequest_retry_loop)
  have f: "result_of (getDriveFile sim_env k ep opts s) = Some (Inr j) \<and>
      (\<exists>ds. trace_of (getDriveFile sim_env k ep opts s) = trace s @ ds \<and>
            count_calls DriveApi ep (method_of opts) ds = Suc k \<and> count_refreshes ds = k)"
    if "truthy (accessToken s)" "refreshToken (settings s) \<noteq> []" "t \<noteq> []"
      "sim_responses (world s) = unauthorized_rounds k t @ answer 200 j # rest"
    using sim_getDriveFile_rounds [OF that, of ep opts] by auto
  from a b c d e f show ?thesis by blast
qed

theorem retry_after_unauthorized_witness:
  "driveApiRequest sim_env (Suc 2) (''files'', []) no_options twice_unauthorized \<noteq> None \<and>
   driveUploadRequest sim_env (Suc 2) (''files'', []) no_options twice_unauthorized \<noteq> None \<and>
   getDriveFile sim_env (Suc 2) (''files'', []) no_options twice_unauthorized \<noteq> None \<and>
   truthy (accessToken twice_unauthorized) \<and>
   refreshToken (settings twice_unauthorized) \<noteq> [] \<and>
   sim_responses (world twice_unauthorized) =
     unauthorized_rounds 2 ''t1'' @ answer 200 (no_json\<lparr>j_files := Some []\<rparr>) # [] \<and>
   (\<exists>ds. trace_of (driveApiRequest sim_env (Suc 2) (''files'', []) no_options twice_unauthorized) =
           trace twice_unauthorized @ ds \<and> attempts (api_request (''files'', []) no_options) ds) \<and>
   result_of (driveUploadRequest sim_env (Suc 2) (''files'', []) no_options twice_unauthorized) =
     Some (Inr (no_json\<lparr>j_files := Some []\<rparr>)) \<and>
   (\<exists>ds. trace_of (getDriveFile sim_env 2 (''files'', []) no_options twice_unauthorized) =
           trace twice_unauthorized @ ds \<and>
         count_calls DriveApi (''files'', []) (method_of no_options) ds = Suc 2 \<and>
         count_refreshes ds = 2)"
proof -
  have h1: "driveApiRequest sim_env (Suc 2) (''files'', []) no_options twice_unauthorized \<noteq> None"
    by (simp add: sim_eval trace_eval)
  have h2: "driveUploadRequest sim_env (Suc 2) (''files'', []) no_options twice_unauthorized \<noteq> None"
    by (simp add: sim_eval trace_eval)
  have h3: "getDriveFile sim_env (Suc 2) (''files'', []) no_options twice_unauthorized \<noteq> None"
    by (simp add: sim_eval trace_eval)
  have h4: "truthy (accessToken twice_unauthorized) \<and>
      refreshToken (settings twice_unauthorized) \<noteq> [] \<and> ''t1'' \<noteq> [] \<and>
      sim_responses (world twice_unauthorized) =
        unauthorized_rounds 2 ''t1'' @ answer 200 (no_json\<lparr>j_files := Some []\<rparr>) # []"
    by (simp add: sim_eval trace_eval)
  from retry_after_unauthorized [where env = sim_env and n = "Suc 2" and ep = "(''files'', [])"
      and opts = no_options and st = twice_unauthorized and s = twice_unauthorized
      and t = "''t1''" and k = 2 and j = "no_json\<lparr>j_files := Some []\<rparr>" and rest = "[]"]
    h1 h2 h3 h4
  show ?thesis by blast
qed

text \<open>
  The remote answers 401 to the request and to its retry, and 200 to the
  third attempt: the call makes that third attempt and returns its answer.
\<close>

theorem third_attempt_counterexample:
  "result_of (driveApiRequest sim_env 3 (''files'', []) no_options twice_unauthorized) =
     Some (Inr (no_json\<lparr>j_files := Some []\<rparr>)) \<and>
   count_calls DriveApi (''files'', []) GET
     (trace_of (driveApiRequest sim_env 3 (''files'', []) no_options twice_unauthorized)) = 3 \<and>
   count_refreshes
     (trace_of (driveApiRequest sim_env 3 (''files'', []) no_options twice_unauthorized)) = 2"
  by (simp add: sim_eval trace_eval)

section \<open>The cached folder id (C3)\<close>

lemma ensureVisibleFolderExists_cached:
  "truthy (visibleFolderId st) \<Longrightarrow> ensureVisibleFolderExists env n st = Some (Inr (), st)"
  by (simp add: ensureVisibleFolderExists_def)

lemma ensure_repeatedly_cached:
  "truthy (visibleFolderId st) \<Longrightarrow> ensure_repeatedly env n k st = Some st"
  by (induction k) (simp_all add: ensureVisibleFolderExists_cached)

lemma ensureVisibleFolderExists_lists_first:
  assumes "\<not> truthy (visibleFolderId st)" and "truthy (accessToken st)"
    and "ensureVisibleFolderExists env n st = Some (r, st')"
  shows "\<exists>ds. trace st' = trace st @
     Fetch (get_request (folder_list_endpoint (visibleFolderName (settings st))) no_options
              (accessToken st)) # ds"
proof -
  let ?ep = "folder_list_endpoint (visibleFolderName (settings st))"
  obtain x st1 where g: "getDriveFile env n ?ep no_options st = Some (x, st1)"
    using assms(1,3) by (cases "getDriveFile env n ?ep no_options st")
      (auto simp: ensureVisibleFolderExists_def await_def)
  from first_getDriveFile [OF assms(2) g] obtain ds where
    t1: "trace st1 = trace st @ Fetch (get_request ?ep no_options (accessToken st)) # ds" by blast
  show ?thesis
  proof (cases x)
    case (Inl e)
    with assms(1,3) g t1 show ?thesis
      by (auto simp: ensureVisibleFolderExists_def await_def console_error_def)
  next
    case (Inr response)
    show ?thesis
    proof (cases "first_file response")
      case (Some f)
      with assms(1,3) g t1 Inr show ?thesis
        by (auto simp: ensureVisibleFolderExists_def await_def)
    next
      case None
      let ?c = "driveApiRequest env n (''files'', [])
                  (create_folder_options (visibleFolderName (settings st1))) st1"
      from assms(1,3) g Inr None obtain y st2 where c: "?c = Some (y, st2)"
        by (cases ?c) (auto simp: ensureVisibleFolderExists_def await_def)
      from calls_driveApiRequest [OF c] obtain es where "trace st2 = trace st1 @ es"
        by (auto simp: calls_def)
      with assms(1,3) g Inr None c t1 show ?thesis
        by (cases y) (auto simp: ensureVisibleFolderExists_def await_def console_error_def)
    qed
  qed
qed

text \<open>
  Claim C3, as amended. Once a non-empty folder id is cached, any number of
  further invocations of \<open>ensureVisibleFolderExists\<close> return with the state
  and the trace as they were: no remote call, so no create call after a
  successful resolution. Both settings handlers reset the cached id to null.
  Without a cached id an invocation starts a fresh resolution: it lists the
  folders first; when the listing finds one it caches its id and sends
  nothing but the listing; when it finds none it sends the create call,
  caches the id of the answer, and when that call fails the id stays as it
  was, so that the next invocation resolves and creates again.
\<close>

theorem visible_folder_cached:
  "(truthy (visibleFolderId st) \<longrightarrow> ensure_repeatedly env n k st = Some st) \<and>
   visibleFolderId (onChange_storageLocation v st) = None \<and>
   visibleFolderId (onChange_visibleFolderName name st) = None \<and>
   (\<not> truthy (visibleFolderId st) \<and> truthy (accessToken st) \<and>
    ensureVisibleFolderExists env n st \<noteq> None \<longrightarrow>
      (\<exists>ds. trace_of (ensureVisibleFolderExists env n st) = trace st @
         Fetch (get_request (folder_list_endpoint (visibleFolderName (settings st))) no_options
                  (accessToken st)) # ds)) \<and>
   (\<not> truthy (visibleFolderId st) \<and>
    getDriveFile env n (folder_list_endpoint (visibleFolderName (settings st))) no_options st =
      Some (Inr response, st1) \<and> first_file response = Some f \<longrightarrow>
      ensureVisibleFolderExists env n st =
        Some (Inr (), st1\<lparr>visibleFolderId := Some (file_id f)\<rparr>) \<and>
      (\<exists>qs. trace st1 = trace st @ qs \<and>
         attempts (get_request (folder_list_endpoint (visibleFolderName (settings st))) no_options) qs)) \<and>
   (\<not> truthy (visibleFolderId st) \<and>
    getDriveFile env n (folder_list_endpoint (visibleFolderName (settings st))) no_options st =
      Some (Inr response, st1) \<and> first_file response = None \<and>
    driveApiRequest env n (''files'', []) (create_folder_options (visibleFolderName (settings st)))
      st1 = Some (created, st2) \<longrightarrow>
      ensureVisibleFolderExists env n st =
        (case created of
           Inl e \<Rightarrow> Some (Inl e, console_error ''Error ensuring visible folder exists:'' e st2)
         | Inr folderResponse \<Rightarrow> Some (Inr (), st2\<lparr>visibleFolderId := j_id folderResponse\<rparr>)) \<and>
      visibleFolderId st2 = visibleFolderId st)"
proof -
  have a: "truthy (visibleFolderId st) \<longrightarrow> ensure_repeatedly env n k st = Some st"
    by (simp add: ensure_repeatedly_cached)
  have b: "visibleFolderId (onChange_storageLocation v st) = None"
    "visibleFolderId (onChange_visibleFolderName name st) = None"
    by (simp_all add: onChange_storageLocation_def onChange_visibleFolderName_def)
  have c: "\<exists>ds. trace_of (ensureVisibleFolderExists env n st) = trace st @
         Fetch (get_request (folder_list_endpoint (visibleFolderName (settings st))) no_options
                  (accessToken st)) # ds"
    if "\<not> truthy (visibleFolderId st)" "truthy (accessToken st)"
      "ensureVisibleFolderExists env n st \<noteq> None"
  proof -
    from that(3) obtain r st' where e: "ensureVisibleFolderExists env n st = Some (r, st')"
      by auto
    from ensureVisibleFolderExists_lists_first [OF that(1,2) e] e show ?thesis by simp
  qed
  have d: "ensureVisibleFolderExists env n st =
        Some (Inr (), st1\<lparr>visibleFolderId := Some (file_id f)\<rparr>) \<and>
      (\<exists>qs. trace st1 = trace st @ qs \<and>
         attempts (get_request (folder_list_endpoint (visibleFolderName (settings st))) no_options) qs)"
    if "\<not> truthy (visibleFolderId st)"
      "getDriveFile env n (folder_list_endpoint (visibleFolderName (settings st))) no_options st =
         Some (Inr response, st1)" "first_file response = Some f"
    using that calls_getDriveFile [OF that(2)]
    by (simp add: ensureVisibleFolderExists_def await_def calls_def)
  have e: "ensureVisibleFolderExists env n st =
        (case created of
           Inl e \<Rightarrow> Some (Inl e, console_error ''Error ensuring visible folder exists:'' e st2)
         | Inr folderResponse \<Rightarrow> Some (Inr (), st2\<lparr>visibleFolderId := j_id folderResponse\<rparr>)) \<and>
      visibleFolderId st2 = visibleFolderId st"
    if "\<not> truthy (visibleFolderId st)"
      "getDriveFile env n (folder_list_endpoint (visibleFolderName (settings st))) no_options st =
         Some (Inr response, st1)" "first_file response = None"
      "driveApiRequest env n (''files'', []) (create_folder_options (visibleFolderName (settings st)))
         st1 = Some (created, st2)"
  proof -
    from calls_getDriveFile [OF that(2)] have u1: "unchanged st st1" by (simp add: calls_def)
    from calls_driveApiRequest [OF that(4)] have u2: "unchanged st1 st2" by (simp add: calls_def)
    from u1 have "settings st1 = settings st" by (simp add: unchanged_def)
    with that u1 u2 show ?thesis
      by (cases created) (simp_all add: ensureVisibleFolderExists_def await_def unchanged_def)
  qed
  from a b c d e show ?thesis by blast
qed

theorem visible_folder_cached_witness:
  "truthy (visibleFolderId resolved) \<and>
   ensure_repeatedly sim_env 1 3 resolved = Some resolved \<and>
   \<not> truthy (visibleFolderId folder_missing) \<and>
   truthy (accessToken folder_missing) \<and>
   ensureVisibleFolderExists sim_env 1 folder_missing \<noteq> None \<and>
   (\<exists>ds. trace_of (ensureVisibleFolderExists sim_env 1 folder_missing) = trace folder_missing @
      Fetch (get_request (folder_list_endpoint ''Obsidian Vault'') no_options (Some ''t0'')) # ds) \<and>
   first_file (no_json\<lparr>j_files := Some [\<lparr>file_id = ''F1'', file_name = ''Obsidian Vault''\<rparr>]\<rparr>) =
     Some \<lparr>file_id = ''F1'', file_name = ''Obsidian Vault''\<rparr> \<and>
   result_of (ensureVisibleFolderExists sim_env 1 folder_found) = Some (Inr ()) \<and>
   visibleFolderId (snd (the (ensureVisibleFolderExists sim_env 1 folder_found))) = Some ''F1'' \<and>
   first_file (no_json\<lparr>j_files := Some []\<rparr>) = None \<and>
   visibleFolderId (snd (the (ensureVisibleFolderExists sim_env 1 folder_missing))) = Some ''F2''"
proof -
  let ?ep = "folder_list_endpoint ''Obsidian Vault''"
  let ?f = "\<lparr>file_id = ''F1'', file_name = ''Obsidian Vault''\<rparr>"
  have n: "visibleFolderName (settings folder_missing) = ''Obsidian Vault''"
    "visibleFolderName (settings folder_found) = ''Obsidian Vault''"
    "accessToken folder_missing = Some ''t0''"
    by (simp_all add: sim_eval op_eval)
  have h1: "truthy (visibleFolderId resolved)" by (simp add: sim_eval op_eval)
  have h2: "\<not> truthy (visibleFolderId folder_missing)" "\<not> truthy (visibleFolderId folder_found)"
    by (simp_all add: sim_eval op_eval)
  have h3: "truthy (accessToken folder_missing)" by (simp add: sim_eval op_eval)
  have h4: "ensureVisibleFolderExists sim_env 1 folder_missing \<noteq> None"
    by (simp add: sim_eval op_eval)
  have g1: "getDriveFile sim_env 1 (folder_list_endpoint (visibleFolderName (settings folder_found)))
              no_options folder_found =
            Some (Inr (no_json\<lparr>j_files := Some [?f]\<rparr>),
                  snd (the (getDriveFile sim_env 1 ?ep no_options folder_found)))"
    by (simp add: sim_eval op_eval)
  have f1: "first_file (no_json\<lparr>j_files := Some [?f]\<rparr>) = Some ?f"
    by (simp add: first_file_def)
  have g2: "getDriveFile sim_env 1 (folder_list_endpoint (visibleFolderName (settings folder_missing)))
              no_options folder_missing =
            Some (Inr (no_json\<lparr>j_files := Some []\<rparr>),
                  snd (the (getDriveFile sim_env 1 ?ep no_options folder_missing)))"
    by (simp add: sim_eval op_eval)
  have f2: "first_file (no_json\<lparr>j_files := Some []\<rparr>) = None"
    by (simp add: first_file_def)
  have c2: "driveApiRequest sim_env 1 (''files'', [])
              (create_folder_options (visibleFolderName (settings folder_missing)))
              (snd (the (getDriveFile sim_env 1 ?ep no_options folder_missing))) =
            Some (Inr (no_json\<lparr>j_id := Some ''F2''\<rparr>),
                  snd (the (driveApiRequest sim_env 1 (''files'', [])
                    (create_folder_options ''Obsidian Vault'')
                    (snd (the (getDriveFile sim_env 1 ?ep no_options folder_missing))))))"
    by (simp add: sim_eval op_eval)
  note w1 = visible_folder_cached [where st = resolved and env = sim_env and n = 1 and k = 3]
  note w2 = visible_folder_cached [where st = folder_found and env = sim_env and n = 1
      and response = "no_json\<lparr>j_files := Some [?f]\<rparr>" and f = ?f
      and ?st1.0 = "snd (the (getDriveFile sim_env 1 ?ep no_options folder_found))"]
  note w3 = visible_folder_cached [where st = folder_missing and env = sim_env and n = 1
      and response = "no_json\<lparr>j_files := Some []\<rparr>"
      and ?st1.0 = "snd (the (getDriveFile sim_env 1 ?ep no_options folder_missing))"
      and created = "Inr (no_json\<lparr>j_id := Some ''F2''\<rparr>)"
      and ?st2.0 = "snd (the (driveApiRequest sim_env 1 (''files'', [])
                    (create_folder_options ''Obsidian Vault'')
                    (snd (the (getDriveFile sim_env 1 ?ep no_options folder_missing)))))"]
  have a: "ensure_repeatedly sim_env 1 3 resolved = Some resolved" using w1 h1 by blast
  have b: "\<exists>ds. trace_of (ensureVisibleFolderExists sim_env 1 folder_missing) = trace folder_missing @
      Fetch (get_request ?ep no_options (Some ''t0'')) # ds"
    using w3 h2(1) h3 h4 n by simp
  have c: "ensureVisibleFolderExists sim_env 1 folder_found =
      Some (Inr (), (snd (the (getDriveFile sim_env 1 ?ep no_options folder_found)))
                      \<lparr>visibleFolderId := Some (file_id ?f)\<rparr>)"
    using w2 h2(2) g1 f1 by blast
  have d: "ensureVisibleFolderExists sim_env 1 folder_missing =
      Some (Inr (), (snd (the (driveApiRequest sim_env 1 (''files'', [])
                    (create_folder_options ''Obsidian Vault'')
                    (snd (the (getDriveFile sim_env 1 ?ep no_options folder_missing))))))
                      \<lparr>visibleFolderId := j_id (no_json\<lparr>j_id := Some ''F2''\<rparr>)\<rparr>)"
    using w3 h2(1) g2 f2 c2 n by simp
  from c have c': "result_of (ensureVisibleFolderExists sim_env 1 folder_found) = Some (Inr ())"
    "visibleFolderId (snd (the (ensureVisibleFolderExists sim_env 1 folder_found))) = Some ''F1''"
    by simp_all
  from d have d': "visibleFolderId (snd (the (ensureVisibleFolderExists sim_env 1 folder_missing))) = Some ''F2''"
    by (simp add: no_json_def)
  from h1 a h2(1) h3 h4 b f1 c' f2 d' show ?thesis by blast
qed

text \<open>
  The create call fails with status 500 in a first invocation and is sent
  again by a second one, with the same storage mode and folder name.
\<close>

theorem create_reissued_counterexample:
  "count_calls DriveApi (''files'', []) POST
     (final_trace (ensure_repeatedly sim_env 1 2 create_fails_once)) = 2"
  by (simp add: sim_eval trace_eval op_eval)

section \<open>Update or create (C2)\<close>







section \<open>Renaming (C4)\<close>




section \<open>Deleting (C5)\<close>




section \<open>The download phase (C6)\<close>




section \<open>A failing file does not stop the pass (C8)\<close>

lemma reads_append [simp]: "reads (xs @ ys) = reads xs @ reads ys"
  by (simp add: reads_def)















section \<open>Token refresh (C7)\<close>

text \<open>
  Claim C7. \<open>refreshAccessToken\<close> throws when the refresh token is empty,
  without sending anything. When it succeeds, the new state is the old one
  with a new \<open>accessToken\<close>, the world after the request and one more request
  in the trace. Whatever its outcome, the settings (the refresh token among
  them) and the persisted settings are the same afterwards, and what a later
  \<open>saveSettings\<close> persists is what it would have persisted before the
  refresh; the persisted data is a settings object, which has no access
  token field.
\<close>

theorem refreshAccessToken_frame:
  "(refreshToken (settings st) = [] \<longrightarrow> refreshAccessToken env st = (Inl NoRefreshToken, st)) \<and>
   (\<forall>st'. refreshAccessToken env st = (Inr (), st') \<longrightarrow>
      st' = st\<lparr>accessToken := accessToken st', world := world st',
               trace := trace st @ [Fetch (refresh_request (settings st))]\<rparr>) \<and>
   (\<forall>r st'. refreshAccessToken env st = (r, st') \<longrightarrow>
      settings st' = settings st \<and> saved st' = saved st \<and>
      saved (saveSettings st') = saved (saveSettings st))"
  by (auto simp: refreshAccessToken_def do_fetch_def saveSettings_def
      split: if_splits prod.splits option.splits)

theorem refreshAccessToken_frame_witness:
  "refreshToken (settings (new_plugin DEFAULT_SETTINGS \<lparr>sim_responses = [], sim_vault = []\<rparr>)) = [] \<and>
   refreshAccessToken sim_env (new_plugin DEFAULT_SETTINGS \<lparr>sim_responses = [], sim_vault = []\<rparr>) =
     (Inl NoRefreshToken, new_plugin DEFAULT_SETTINGS \<lparr>sim_responses = [], sim_vault = []\<rparr>) \<and>
   fst (refreshAccessToken sim_env (script [token_answer ''t1''] (saveSettings signed_in))) = Inr () \<and>
   accessToken (snd (refreshAccessToken sim_env (script [token_answer ''t1''] (saveSettings signed_in)))) = Some ''t1'' \<and>
   settings (snd (refreshAccessToken sim_env (script [token_answer ''t1''] (saveSettings signed_in)))) =
     settings signed_in \<and>
   saved (snd (refreshAccessToken sim_env (script [token_answer ''t1''] (saveSettings signed_in)))) =
     Some (settings signed_in)"
proof -
  have e: "refreshToken (settings (new_plugin DEFAULT_SETTINGS \<lparr>sim_responses = [], sim_vault = []\<rparr>)) = []"
    by (simp add: new_plugin_def DEFAULT_SETTINGS_def)
  have r: "refreshAccessToken sim_env (script [token_answer ''t1''] (saveSettings signed_in)) =
      (Inr (), snd (refreshAccessToken sim_env (script [token_answer ''t1''] (saveSettings signed_in))))"
    by (simp add: sim_eval saveSettings_def)
  have a: "accessToken (snd (refreshAccessToken sim_env (script [token_answer ''t1''] (saveSettings signed_in)))) = Some ''t1''"
    by (simp add: sim_eval saveSettings_def)
  have s: "settings (script [token_answer ''t1''] (saveSettings signed_in)) = settings signed_in"
     "saved (script [token_answer ''t1''] (saveSettings signed_in)) = Some (settings signed_in)"
    by (simp_all add: script_def saveSettings_def)
  from refreshAccessToken_frame [of "new_plugin DEFAULT_SETTINGS \<lparr>sim_responses = [], sim_vault = []\<rparr>" sim_env]
    refreshAccessToken_frame [of "script [token_answer ''t1''] (saveSettings signed_in)" sim_env]
    e r a s
  show ?thesis by (metis fst_conv)
qed

section \<open>The auto-sync timer (C9)\<close>

lemma timer_invariant_start:
  "timer_invariant st \<Longrightarrow> h \<noteq> 0 \<Longrightarrow>
     timer_invariant (startAutoSync h st) \<and> timers (startAutoSync h st) = [h]"
  by (auto simp: timer_invariant_def startAutoSync_def clearInterval_def setInterval_def
      Let_def truthy_num_def split: option.splits if_splits)

lemma timer_invariant_stop:
  "timer_invariant st \<Longrightarrow> timer_invariant (stopAutoSync st) \<and> timers (stopAutoSync st) = []"
  by (auto simp: timer_invariant_def stopAutoSync_def clearInterval_def
      truthy_num_def split: option.splits if_splits)

lemma timer_invariant_calls:
  "timer_invariant st \<Longrightarrow> \<forall>h. StartAutoSync h \<in> set cs \<longrightarrow> h \<noteq> 0 \<Longrightarrow>
     timer_invariant (timer_calls cs st)"
proof (induction cs arbitrary: st)
  case Nil
  then show ?case by simp
next
  case (Cons c cs)
  show ?case
  proof (cases c)
    case (StartAutoSync h)
    with Cons.prems have "h \<noteq> 0" by simp
    with Cons.prems(1) have "timer_invariant (startAutoSync h st)"
      by (simp add: timer_invariant_start)
    with Cons StartAutoSync show ?thesis by simp
  next
    case StopAutoSync
    from Cons.prems(1) have "timer_invariant (stopAutoSync st)"
      by (simp add: timer_invariant_stop)
    with Cons StopAutoSync show ?thesis by simp
  qed
qed

text \<open>
  Claim C9. From a state whose running timers are exactly the one recorded in
  \<open>syncInterval\<close> (none at construction), after any sequence of calls of
  \<open>startAutoSync\<close> and \<open>stopAutoSync\<close> at most one timer runs; a further
  \<open>startAutoSync\<close> leaves only the new timer, a further \<open>stopAutoSync\<close> none.
  Timer handles are nonzero, as \<open>window.setInterval\<close> returns them.
\<close>

theorem at_most_one_timer:
  assumes "timer_invariant st" and "\<forall>h. StartAutoSync h \<in> set cs \<longrightarrow> h \<noteq> 0"
  shows "length (timers (timer_calls cs st)) \<le> 1 \<and>
         (\<forall>h. h \<noteq> 0 \<longrightarrow> timers (startAutoSync h (timer_calls cs st)) = [h]) \<and>
         timers (stopAutoSync (timer_calls cs st)) = []"
proof -
  have i: "timer_invariant (timer_calls cs st)"
    using assms by (rule timer_invariant_calls)
  then have "length (timers (timer_calls cs st)) \<le> 1"
    by (simp add: timer_invariant_def)
  with i show ?thesis
    by (simp add: timer_invariant_start timer_invariant_stop)
qed

theorem at_most_one_timer_witness:
  "timer_invariant (new_plugin DEFAULT_SETTINGS ()) \<and>
   timers (timer_calls [StartAutoSync 7, StartAutoSync 8, StopAutoSync, StartAutoSync 9]
             (new_plugin DEFAULT_SETTINGS ())) = [9] \<and>
   length (timers (timer_calls [StartAutoSync 7, StartAutoSync 8, StopAutoSync, StartAutoSync 9]
             (new_plugin DEFAULT_SETTINGS ()))) \<le> 1"
proof -
  have i: "timer_invariant (new_plugin DEFAULT_SETTINGS ())"
    by (simp add: timer_invariant_def new_plugin_def truthy_num_def)
  have n: "\<forall>h. StartAutoSync h \<in> set [StartAutoSync 7, StartAutoSync 8, StopAutoSync, StartAutoSync 9] \<longrightarrow> h \<noteq> 0"
    by auto
  have t: "timers (timer_calls [StartAutoSync 7, StartAutoSync 8, StopAutoSync, StartAutoSync 9]
             (new_plugin DEFAULT_SETTINGS ())) = [9]"
    by (simp add: new_plugin_def startAutoSync_def stopAutoSync_def clearInterval_def
        setInterval_def truthy_num_def Let_def)
  from i t at_most_one_timer [OF i n] show ?thesis by simp
qed

section \<open>Addressing before resolution (C10)\<close>

text \<open>
  Claim C10, as amended. In visible mode with no folder id resolved,
  \<open>getParentId\<close> returns \<open>['appDataFolder']\<close> and \<open>getSearchQuery\<close> targets
  the parent \<open>appDataFolder\<close>; \<open>getSearchSpace\<close> does not fall back: it
  returns \<open>undefined\<close>.
\<close>

theorem addressing_fallback:
  "storageLocation (settings st) = Visible \<Longrightarrow> \<not> truthy (visibleFolderId st) \<Longrightarrow>
     getParentId st = [''appDataFolder''] \<and>
     getSearchQuery st fileName =
       ''name='' @ sq fileName @ '' and parents in '' @ sq ''appDataFolder'' \<and>
     getSearchSpace st = None"
  by (simp add: getParentId_def getSearchQuery_def getSearchSpace_def)

theorem addressing_fallback_witness:
  "storageLocation (settings (in_visible_mode (new_plugin DEFAULT_SETTINGS ()))) = Visible \<and>
   \<not> truthy (visibleFolderId (in_visible_mode (new_plugin DEFAULT_SETTINGS ()))) \<and>
   getParentId (in_visible_mode (new_plugin DEFAULT_SETTINGS ())) = [''appDataFolder''] \<and>
   getSearchQuery (in_visible_mode (new_plugin DEFAULT_SETTINGS ())) ''a.md'' =
     ''name='' @ sq ''a.md'' @ '' and parents in '' @ sq ''appDataFolder'' \<and>
   getSearchSpace (in_visible_mode (new_plugin DEFAULT_SETTINGS ())) = None"
proof -
  have v: "storageLocation (settings (in_visible_mode (new_plugin DEFAULT_SETTINGS ()))) = Visible"
    by (simp add: in_visible_mode_def)
  have n: "\<not> truthy (visibleFolderId (in_visible_mode (new_plugin DEFAULT_SETTINGS ())))"
    by (simp add: in_visible_mode_def new_plugin_def truthy_def)
  from v n addressing_fallback [OF v n, of "''a.md''"] show ?thesis by simp
qed

text \<open>
  The third addressing helper does not answer with the hidden namespace in
  that state.
\<close>

theorem getSearchSpace_no_fallback_counterexample:
  "getSearchSpace (in_visible_mode (new_plugin DEFAULT_SETTINGS ())) \<noteq> Some ''appDataFolder''"
  by (simp add: getSearchSpace_def in_visible_mode_def)

end
